theory Spec2Isabelle
  imports Complex_Main
begin

section \<open>Numbers and typed arrays\<close>

text \<open>
  The camera of \<^verbatim>\<open>src/camera/camera.ts\<close> computes with JavaScript numbers and stores
  its matrices in \<^verbatim>\<open>Float32Array\<close>s. The embedding reads a number as a real and a
  typed array as the list of its elements: rounding, infinities and NaN are left out, so
  every statement below is about the exact arithmetic the code is written to approximate.
  Where the code divides, the theory divides in the reals. A division by zero yields an
  infinity or NaN in the program and 0 in HOL: there the model says nothing about the
  program. No camera in the examples below divides by zero.
  Counters (\<^verbatim>\<open>_id\<close>, \<^verbatim>\<open>_worldID\<close>) start at 0 and are only ever incremented:
  they are natural numbers.
\<close>

type_synonym Float32Array = "real list"

definition new_Float32Array :: "nat \<Rightarrow> Float32Array" where
  "new_Float32Array n = replicate n 0"

text \<open>
  \<^verbatim>\<open>a || b\<close> on a value of type \<^verbatim>\<open>number | undefined\<close>: \<^verbatim>\<open>undefined\<close> and
  \<^verbatim>\<open>0\<close> are falsy.
\<close>

definition truthy :: "real option \<Rightarrow> bool" where
  "truthy v = (case v of None \<Rightarrow> False | Some a \<Rightarrow> a \<noteq> 0)"

definition js_or :: "real option \<Rightarrow> real \<Rightarrow> real" where
  "js_or v d = (case v of None \<Rightarrow> d | Some a \<Rightarrow> if a \<noteq> 0 then a else d)"

section \<open>The vector and matrix library\<close>

text \<open>
  The camera imports the classes \<^verbatim>\<open>Vec3\<close>, \<^verbatim>\<open>Vec4\<close> and \<^verbatim>\<open>Mat4\<close> from
  \<^verbatim>\<open>src/math\<close>, which are not among the source files. The spec calls their arithmetic
  "standard textbook linear algebra" (perspective projection, look-at, matrix inversion)
  that matches the reference implementations; each function below is that textbook
  function. A 4x4 matrix is the 16 elements of a \<^verbatim>\<open>Float32Array\<close> in column-major
  order, as WebGL expects them: element \<open>4 * c + r\<close> is row \<open>r\<close> of column \<open>c\<close>.
  Every function takes an output array that it overwrites completely and returns; the
  model returns the new contents. The properties of the camera's methods below use these
  functions by name only, except where a matrix is evaluated or inverted.
\<close>

text \<open>Modelled from the spec: \<^verbatim>\<open>Vec3.add\<close>, the sum of two vectors of three numbers.\<close>

definition Vec3_add :: "Float32Array \<Rightarrow> Float32Array \<Rightarrow> Float32Array" where
  "Vec3_add a b = [a ! 0 + b ! 0, a ! 1 + b ! 1, a ! 2 + b ! 2]"

text \<open>Modelled from the spec: \<^verbatim>\<open>Vec4.set\<close>, the vector of four given numbers.\<close>

definition Vec4_set :: "real \<Rightarrow> real \<Rightarrow> real \<Rightarrow> real \<Rightarrow> Float32Array" where
  "Vec4_set x y z w = [x, y, z, w]"

text \<open>
  Modelled from the spec: \<^verbatim>\<open>Vec4.transformMat4\<close>, the product of the matrix \<open>m\<close> and
  the column vector \<open>a\<close>. The four numbers of \<open>a\<close> are read before the result is
  written, so the result may be written over \<open>a\<close>.
\<close>

definition Vec4_transformMat4 :: "Float32Array \<Rightarrow> Float32Array \<Rightarrow> Float32Array" where
  "Vec4_transformMat4 a m =
     (let x = a ! 0; y = a ! 1; z = a ! 2; w = a ! 3 in
      [m ! 0 * x + m ! 4 * y + m ! 8 * z + m ! 12 * w,
       m ! 1 * x + m ! 5 * y + m ! 9 * z + m ! 13 * w,
       m ! 2 * x + m ! 6 * y + m ! 10 * z + m ! 14 * w,
       m ! 3 * x + m ! 7 * y + m ! 11 * z + m ! 15 * w])"

text \<open>Modelled from the spec: the identity matrix.\<close>

definition Mat4_identity :: Float32Array where
  "Mat4_identity = [1, 0, 0, 0,  0, 1, 0, 0,  0, 0, 1, 0,  0, 0, 0, 1]"

text \<open>
  Modelled from the spec: \<^verbatim>\<open>Mat4.multiply\<close>, the matrix product \<open>a \<cdot> b\<close>.
  \<open>Mat4_dot a b c r\<close> is row \<open>r\<close> of \<open>a\<close> times column \<open>c\<close> of \<open>b\<close>.
\<close>

definition Mat4_dot :: "Float32Array \<Rightarrow> Float32Array \<Rightarrow> nat \<Rightarrow> nat \<Rightarrow> real" where
  "Mat4_dot a b c r =
     b ! (4 * c) * a ! r + b ! (4 * c + 1) * a ! (4 + r) +
     b ! (4 * c + 2) * a ! (8 + r) + b ! (4 * c + 3) * a ! (12 + r)"

definition Mat4_multiply :: "Float32Array \<Rightarrow> Float32Array \<Rightarrow> Float32Array" where
  "Mat4_multiply a b =
     [Mat4_dot a b 0 0, Mat4_dot a b 0 1, Mat4_dot a b 0 2, Mat4_dot a b 0 3,
      Mat4_dot a b 1 0, Mat4_dot a b 1 1, Mat4_dot a b 1 2, Mat4_dot a b 1 3,
      Mat4_dot a b 2 0, Mat4_dot a b 2 1, Mat4_dot a b 2 2, Mat4_dot a b 2 3,
      Mat4_dot a b 3 0, Mat4_dot a b 3 1, Mat4_dot a b 3 2, Mat4_dot a b 3 3]"

text \<open>
  Modelled from the spec: \<^verbatim>\<open>Mat4.perspective\<close>, the perspective projection of a
  vertical field of view \<open>fovy\<close> (radians), an aspect ratio and the two clipping planes,
  onto the clip cube \<open>[-1, 1]\<close>.
\<close>

definition Mat4_perspective :: "real \<Rightarrow> real \<Rightarrow> real \<Rightarrow> real \<Rightarrow> Float32Array" where
  "Mat4_perspective fovy aspect near far =
     (let f = 1 / tan (fovy / 2); nf = 1 / (near - far) in
      [f / aspect, 0, 0, 0,
       0, f, 0, 0,
       0, 0, (far + near) * nf, - 1,
       0, 0, 2 * far * near * nf, 0])"

text \<open>Modelled from the spec: the Euclidean length of a vector of three numbers.\<close>

definition Vec3_length :: "real \<Rightarrow> real \<Rightarrow> real \<Rightarrow> real" where
  "Vec3_length x y z = sqrt (x * x + y * y + z * z)"

text \<open>
  Modelled from the spec: \<^verbatim>\<open>Mat4.lookAt\<close>, the look-at matrix of an eye position, a
  point looked at and an up direction. The rows of its rotation are the camera's right,
  up and backward axes, each of length 1 (an axis of length 0 stays 0).
\<close>

definition Mat4_lookAt :: "Float32Array \<Rightarrow> Float32Array \<Rightarrow> Float32Array \<Rightarrow> Float32Array" where
  "Mat4_lookAt eye center upv =
     (let eyex = eye ! 0; eyey = eye ! 1; eyez = eye ! 2;
          upx = upv ! 0; upy = upv ! 1; upz = upv ! 2;
          d0 = eyex - center ! 0; d1 = eyey - center ! 1; d2 = eyez - center ! 2;
          dl = Vec3_length d0 d1 d2;
          z0 = d0 / dl; z1 = d1 / dl; z2 = d2 / dl;
          c0 = upy * z2 - upz * z1; c1 = upz * z0 - upx * z2; c2 = upx * z1 - upy * z0;
          cl = Vec3_length c0 c1 c2;
          x0 = (if cl = 0 then 0 else c0 / cl);
          x1 = (if cl = 0 then 0 else c1 / cl);
          x2 = (if cl = 0 then 0 else c2 / cl);
          e0 = z1 * x2 - z2 * x1; e1 = z2 * x0 - z0 * x2; e2 = z0 * x1 - z1 * x0;
          el = Vec3_length e0 e1 e2;
          y0 = (if el = 0 then 0 else e0 / el);
          y1 = (if el = 0 then 0 else e1 / el);
          y2 = (if el = 0 then 0 else e2 / el)
      in [x0, y0, z0, 0,
          x1, y1, z1, 0,
          x2, y2, z2, 0,
          - (x0 * eyex + x1 * eyey + x2 * eyez),
          - (y0 * eyex + y1 * eyey + y2 * eyez),
          - (z0 * eyex + z1 * eyey + z2 * eyez),
          1])"

text \<open>
  Modelled from the spec: the determinant of a matrix, by the 2x2 minors of its first two
  and of its last two columns.
\<close>

definition Mat4_determinant :: "Float32Array \<Rightarrow> real" where
  "Mat4_determinant a =
     (let a00 = a ! 0; a01 = a ! 1; a02 = a ! 2; a03 = a ! 3;
          a10 = a ! 4; a11 = a ! 5; a12 = a ! 6; a13 = a ! 7;
          a20 = a ! 8; a21 = a ! 9; a22 = a ! 10; a23 = a ! 11;
          a30 = a ! 12; a31 = a ! 13; a32 = a ! 14; a33 = a ! 15;
          b00 = a00 * a11 - a01 * a10; b01 = a00 * a12 - a02 * a10;
          b02 = a00 * a13 - a03 * a10; b03 = a01 * a12 - a02 * a11;
          b04 = a01 * a13 - a03 * a11; b05 = a02 * a13 - a03 * a12;
          b06 = a20 * a31 - a21 * a30; b07 = a20 * a32 - a22 * a30;
          b08 = a20 * a33 - a23 * a30; b09 = a21 * a32 - a22 * a31;
          b10 = a21 * a33 - a23 * a31; b11 = a22 * a33 - a23 * a32
      in b00 * b11 - b01 * b10 + b02 * b09 + b03 * b08 - b04 * b07 + b05 * b06)"

text \<open>Modelled from the spec: the adjugate of a matrix, by the same minors.\<close>

definition Mat4_adjugate :: "Float32Array \<Rightarrow> Float32Array" where
  "Mat4_adjugate a =
     (let a00 = a ! 0; a01 = a ! 1; a02 = a ! 2; a03 = a ! 3;
          a10 = a ! 4; a11 = a ! 5; a12 = a ! 6; a13 = a ! 7;
          a20 = a ! 8; a21 = a ! 9; a22 = a ! 10; a23 = a ! 11;
          a30 = a ! 12; a31 = a ! 13; a32 = a ! 14; a33 = a ! 15;
          b00 = a00 * a11 - a01 * a10; b01 = a00 * a12 - a02 * a10;
          b02 = a00 * a13 - a03 * a10; b03 = a01 * a12 - a02 * a11;
          b04 = a01 * a13 - a03 * a11; b05 = a02 * a13 - a03 * a12;
          b06 = a20 * a31 - a21 * a30; b07 = a20 * a32 - a22 * a30;
          b08 = a20 * a33 - a23 * a30; b09 = a21 * a32 - a22 * a31;
          b10 = a21 * a33 - a23 * a31; b11 = a22 * a33 - a23 * a32
      in [a11 * b11 - a12 * b10 + a13 * b09,
          a02 * b10 - a01 * b11 - a03 * b09,
          a31 * b05 - a32 * b04 + a33 * b03,
          a22 * b04 - a21 * b05 - a23 * b03,
          a12 * b08 - a10 * b11 - a13 * b07,
          a00 * b11 - a02 * b08 + a03 * b07,
          a32 * b02 - a30 * b05 - a33 * b01,
          a20 * b05 - a22 * b02 + a23 * b01,
          a10 * b10 - a11 * b08 + a13 * b06,
          a01 * b08 - a00 * b10 - a03 * b06,
          a30 * b04 - a31 * b02 + a33 * b00,
          a21 * b02 - a20 * b04 - a23 * b00,
          a11 * b07 - a10 * b09 - a12 * b06,
          a00 * b09 - a01 * b07 + a02 * b06,
          a31 * b01 - a30 * b03 - a32 * b00,
          a20 * b03 - a21 * b01 + a22 * b00])"

text \<open>
  Modelled from the spec: \<^verbatim>\<open>Mat4.invert\<close>, the inverse as the adjugate over the
  determinant. The camera tests its result against \<^verbatim>\<open>null\<close>, which is the result for a
  singular matrix: \<open>None\<close>.
\<close>

definition Mat4_invert :: "Float32Array \<Rightarrow> Float32Array option" where
  "Mat4_invert a =
     (let det = Mat4_determinant a in
      if det = 0 then None else Some (map (\<lambda>v. v * (1 / det)) (Mat4_adjugate a)))"

section \<open>The host engine's objects\<close>

text \<open>
  The renderer and the 2D point belong to the host engine (\<^verbatim>\<open>PIXI.Renderer\<close>,
  \<^verbatim>\<open>PIXI.Point\<close>); the scene-graph container, its transform and the observable point
  are classes of this repository that are not among the source files. The camera only
  reads and writes a few of their fields; the records below hold exactly those.
\<close>

text \<open>
  \<^verbatim>\<open>PIXI.Renderer\<close>: the camera reads its \<^verbatim>\<open>width\<close> and \<^verbatim>\<open>height\<close>. A camera holds its
  renderer as a field; a resize of the renderer is a change of that field.
\<close>

record Renderer =
  width :: real
  height :: real

text \<open>\<^verbatim>\<open>PIXI.Point\<close>, with its \<^verbatim>\<open>set\<close>, which returns the point.\<close>

record Point =
  pt_x :: real
  pt_y :: real

definition Point_new :: Point where
  "Point_new = \<lparr>pt_x = 0, pt_y = 0\<rparr>"

definition Point_set :: "real \<Rightarrow> real \<Rightarrow> Point \<Rightarrow> Point" where
  "Point_set x y p = p\<lparr>pt_x := x, pt_y := y\<rparr>"

text \<open>
  Modelled from the spec: the class \<^verbatim>\<open>ObservablePoint3D\<close>, a point of three
  coordinates whose \<^verbatim>\<open>set\<close> stores them and returns the point (\<^verbatim>\<open>screenToWorld\<close>
  returns what \<^verbatim>\<open>point.set\<close> returns).
\<close>

record ObservablePoint3D =
  obs_x :: real
  obs_y :: real
  obs_z :: real

definition ObservablePoint3D_new :: ObservablePoint3D where
  "ObservablePoint3D_new = \<lparr>obs_x = 0, obs_y = 0, obs_z = 0\<rparr>"

definition ObservablePoint3D_set :: "real \<Rightarrow> real \<Rightarrow> real \<Rightarrow> ObservablePoint3D \<Rightarrow> ObservablePoint3D" where
  "ObservablePoint3D_set x y z p = p\<lparr>obs_x := x, obs_y := y, obs_z := z\<rparr>"

text \<open>
  Modelled from the spec: \<^verbatim>\<open>worldTransform\<close>, the world matrix of the container, of
  which the camera reads the position and the forward and up directions (three numbers
  each).
\<close>

record Matrix4 =
  position :: Float32Array
  forward :: Float32Array
  up :: Float32Array

text \<open>
  Modelled from the spec: the transform of a container. It has the version counter
  \<^verbatim>\<open>_worldID\<close> of the host engine, which the host increments when the world matrix
  changes, the local position, the local rotation (kept as the Euler angles last given to
  \<^verbatim>\<open>setEulerAngles\<close>) and the world matrix.
\<close>

record Transform3D =
  worldID :: nat
  local_position :: ObservablePoint3D
  rotationQuaternion :: "real \<times> real \<times> real"
  worldTransform :: Matrix4

text \<open>
  Modelled from the spec: the class \<^verbatim>\<open>Container3D\<close>, of which the camera uses the
  transform and the parent (a reference, or none while the camera is not attached to the
  scene hierarchy).
\<close>

record Container3D =
  transform :: Transform3D
  parent :: "nat option"

section \<open>MatrixComponent\<close>

text \<open>
  Modelled from the spec: the class \<^verbatim>\<open>MatrixComponent\<close> (\<^verbatim>\<open>src/transform\<close>), which is
  not among the source files. The spec describes the cached matrices as "a cache keyed to
  a host-engine transform identifier (\<^verbatim>\<open>_worldID\<close>) and invalidated via a manually
  incremented dirty counter", a "lazy recomputation gated by a version counter": a
  component holds an array and the key under which the array was last computed
  (\<^verbatim>\<open>undefined\<close> before the first read); reading \<^verbatim>\<open>array\<close> calls the update function
  when the parent's \<^verbatim>\<open>id\<close> differs from that key, then stores the parent's \<^verbatim>\<open>id\<close>.

  The camera constructs a component as \<^verbatim>\<open>new MatrixComponent(this, size, update)\<close>. The
  update function may itself read other components of the parent, so it is a
  function from the array and the parent's state to the new array and state.
\<close>

record MatrixComponent =
  mc_id :: "nat option"
  mc_array :: Float32Array

text \<open>
  Modelled from the spec: the constructor of a component, with a new array of the given
  size and no key.
\<close>

definition MatrixComponent_new :: "nat \<Rightarrow> MatrixComponent" where
  "MatrixComponent_new n = \<lparr>mc_id = None, mc_array = new_Float32Array n\<rparr>"

text \<open>
  Modelled from the spec: the getter \<^verbatim>\<open>array\<close> of a component, "lazy recomputation
  gated by a version counter".
\<close>

definition MatrixComponent_array ::
  "('s \<Rightarrow> nat) \<Rightarrow> (Float32Array \<Rightarrow> 's \<Rightarrow> Float32Array \<times> 's) \<Rightarrow> MatrixComponent \<Rightarrow> 's
     \<Rightarrow> MatrixComponent \<times> 's" where
  "MatrixComponent_array parent_id update m s =
     (if mc_id m \<noteq> Some (parent_id s)
      then (let (data, s') = update (mc_array m) s
            in (\<lparr>mc_id = Some (parent_id s'), mc_array = data\<rparr>, s'))
      else (m, s))"

section \<open>Camera\<close>

text \<open>
  The class \<^verbatim>\<open>Camera\<close> of \<^verbatim>\<open>src/camera/camera.ts\<close>. A private field \<^verbatim>\<open>_f\<close> is the
  record field \<open>p_f\<close>; a getter \<^verbatim>\<open>f\<close> is the function \<open>Camera_f\<close> and its setter
  \<open>Camera_set_f\<close>. A method that changes the camera returns the changed camera.
\<close>

record Camera = Container3D +
  renderer :: Renderer
  p_id :: nat
  p_projection :: "MatrixComponent option"
  p_view :: "MatrixComponent option"
  p_viewProjection :: "MatrixComponent option"
  p_target :: "MatrixComponent option"
  p_fieldOfView :: real
  p_near :: real
  p_far :: real
  p_aspect :: "real option"

definition Camera_id :: "Camera \<Rightarrow> nat" where
  "Camera_id c = worldID (transform c) + p_id c"

subsection \<open>Properties\<close>

definition Camera_aspect :: "Camera \<Rightarrow> real option" where
  "Camera_aspect c = p_aspect c"

definition Camera_set_aspect :: "real option \<Rightarrow> Camera \<Rightarrow> Camera" where
  "Camera_set_aspect v c =
     (if p_aspect c \<noteq> v then c\<lparr>p_aspect := v, p_id := p_id c + 1\<rparr> else c)"

definition Camera_fieldOfView :: "Camera \<Rightarrow> real" where
  "Camera_fieldOfView c = p_fieldOfView c"

definition Camera_set_fieldOfView :: "real \<Rightarrow> Camera \<Rightarrow> Camera" where
  "Camera_set_fieldOfView v c =
     (if p_fieldOfView c \<noteq> v then c\<lparr>p_fieldOfView := v, p_id := p_id c + 1\<rparr> else c)"

definition Camera_near :: "Camera \<Rightarrow> real" where
  "Camera_near c = p_near c"

definition Camera_set_near :: "real \<Rightarrow> Camera \<Rightarrow> Camera" where
  "Camera_set_near v c =
     (if p_near c \<noteq> v then c\<lparr>p_near := v, p_id := p_id c + 1\<rparr> else c)"

definition Camera_far :: "Camera \<Rightarrow> real" where
  "Camera_far c = p_far c"

definition Camera_set_far :: "real \<Rightarrow> Camera \<Rightarrow> Camera" where
  "Camera_set_far v c =
     (if p_far c \<noteq> v then c\<lparr>p_far := v, p_id := p_id c + 1\<rparr> else c)"

subsection \<open>The cached matrices\<close>

text \<open>
  Each getter creates its component on first use, stores it in the camera and returns
  the component's \<^verbatim>\<open>array\<close>. The four update functions are the closures of the source.
\<close>

definition projection_update :: "Float32Array \<Rightarrow> Camera \<Rightarrow> Float32Array \<times> Camera" where
  "projection_update data c =
     (Mat4_perspective (p_fieldOfView c * (pi / 180))
        (js_or (p_aspect c) (width (renderer c) / height (renderer c)))
        (p_near c) (p_far c), c)"

definition Camera_projection :: "Camera \<Rightarrow> Float32Array \<times> Camera" where
  "Camera_projection c =
     (let m = (case p_projection c of None \<Rightarrow> MatrixComponent_new 16 | Some m \<Rightarrow> m);
          (m', c') = MatrixComponent_array Camera_id projection_update m (c\<lparr>p_projection := Some m\<rparr>)
      in (mc_array m', c'\<lparr>p_projection := Some m'\<rparr>))"

definition target_update :: "Float32Array \<Rightarrow> Camera \<Rightarrow> Float32Array \<times> Camera" where
  "target_update data c =
     (Vec3_add (position (worldTransform (transform c))) (forward (worldTransform (transform c))), c)"

definition Camera_target :: "Camera \<Rightarrow> Float32Array \<times> Camera" where
  "Camera_target c =
     (let m = (case p_target c of None \<Rightarrow> MatrixComponent_new 3 | Some m \<Rightarrow> m);
          (m', c') = MatrixComponent_array Camera_id target_update m (c\<lparr>p_target := Some m\<rparr>)
      in (mc_array m', c'\<lparr>p_target := Some m'\<rparr>))"

definition view_update :: "Float32Array \<Rightarrow> Camera \<Rightarrow> Float32Array \<times> Camera" where
  "view_update data c =
     (let (t, c') = Camera_target c
      in (Mat4_lookAt (position (worldTransform (transform c'))) t
            (up (worldTransform (transform c'))), c'))"

definition Camera_view :: "Camera \<Rightarrow> Float32Array \<times> Camera" where
  "Camera_view c =
     (let m = (case p_view c of None \<Rightarrow> MatrixComponent_new 16 | Some m \<Rightarrow> m);
          (m', c') = MatrixComponent_array Camera_id view_update m (c\<lparr>p_view := Some m\<rparr>)
      in (mc_array m', c'\<lparr>p_view := Some m'\<rparr>))"

definition viewProjection_update :: "Float32Array \<Rightarrow> Camera \<Rightarrow> Float32Array \<times> Camera" where
  "viewProjection_update data c =
     (let (p, c1) = Camera_projection c;
          (v, c2) = Camera_view c1
      in (Mat4_multiply p v, c2))"

definition Camera_viewProjection :: "Camera \<Rightarrow> Float32Array \<times> Camera" where
  "Camera_viewProjection c =
     (let m = (case p_viewProjection c of None \<Rightarrow> MatrixComponent_new 16 | Some m \<Rightarrow> m);
          (m', c') = MatrixComponent_array Camera_id viewProjection_update m
                       (c\<lparr>p_viewProjection := Some m\<rparr>)
      in (mc_array m', c'\<lparr>p_viewProjection := Some m'\<rparr>))"

subsection \<open>The prerender callback and the constructor\<close>

text \<open>
  The listener that the constructor registers on the renderer's \<^verbatim>\<open>prerender\<close> event.
  \<^verbatim>\<open>updateTransform\<close> is the host's method on the transform: a parameter.
\<close>

definition Camera_prerender :: "(Transform3D \<Rightarrow> Transform3D) \<Rightarrow> Camera \<Rightarrow> Camera" where
  "Camera_prerender updateTransform c =
     (let c1 = (if \<not> truthy (p_aspect c) then c\<lparr>p_id := p_id c + 1\<rparr> else c)
      in if parent c1 = None then c1\<lparr>transform := updateTransform (transform c1)\<rparr> else c1)"

text \<open>
  Cameras are objects: the program's cameras live in a heap, a camera's reference is its
  index there, and the static field \<^verbatim>\<open>Camera.main\<close> holds a reference or is undefined.
  \<open>prerender_listeners\<close> lists the cameras whose callback has been registered.
  \<^verbatim>\<open>new Camera(renderer)\<close> first runs \<^verbatim>\<open>super()\<close>, whose result (the container with
  its fresh transform) is the argument \<open>base\<close>, then the field initialisers, then the
  body of the constructor.
\<close>

record World =
  heap :: "Camera list"
  Camera_main :: "nat option"
  prerender_listeners :: "nat list"

definition World_empty :: World where
  "World_empty = \<lparr>heap = [], Camera_main = None, prerender_listeners = []\<rparr>"

definition Camera_fields :: "Container3D \<Rightarrow> Renderer \<Rightarrow> Camera" where
  "Camera_fields base r =
     \<lparr>transform = transform base, parent = parent base, renderer = r, p_id = 0,
      p_projection = None, p_view = None, p_viewProjection = None, p_target = None,
      p_fieldOfView = 60, p_near = 1 / 10, p_far = 1000, p_aspect = None\<rparr>"

definition Camera_constructor :: "Container3D \<Rightarrow> Renderer \<Rightarrow> World \<Rightarrow> nat \<times> World" where
  "Camera_constructor base r w =
     (let this = length (heap w);
          c = Camera_fields base r;
          w1 = w\<lparr>heap := heap w @ [c], prerender_listeners := prerender_listeners w @ [this]\<rparr>;
          w2 = (if Camera_main w1 = None then w1\<lparr>Camera_main := Some this\<rparr> else w1);
          t = transform c;
          t1 = t\<lparr>local_position := (local_position t)\<lparr>obs_z := 5\<rparr>\<rparr>;
          t2 = t1\<lparr>rotationQuaternion := (0, 180, 0)\<rparr>
      in (this, w2\<lparr>heap := (heap w2)[this := c\<lparr>transform := t2\<rparr>]\<rparr>))"

text \<open>Constructing one camera after the other, each with its own container and renderer.\<close>

fun construct_all :: "(Container3D \<times> Renderer) list \<Rightarrow> World \<Rightarrow> World" where
  "construct_all [] w = w"
| "construct_all ((base, r) # rest) w = construct_all rest (snd (Camera_constructor base r w))"

subsection \<open>Screen and world coordinates\<close>

text \<open>
  \<^verbatim>\<open>screenToWorld\<close> returns the point it was given, or nothing (\<^verbatim>\<open>undefined\<close>) when the
  view-projection matrix cannot be inverted. The result of the model is what the method
  returns, the point object as the call leaves it, and the camera as the call leaves it.
  A call that gives no point passes a new one (\<open>ObservablePoint3D_new\<close>, and
  \<open>Point_new\<close> for \<^verbatim>\<open>worldToScreen\<close>).
  The module's scratch arrays \<^verbatim>\<open>mat4\<close> and \<^verbatim>\<open>vec4\<close> are written before they are read
  in every call, so no value passes through them from one call to the next: they are
  the local values \<open>invertedViewProjection\<close>, \<open>clipSpace\<close> and \<open>worldSpace\<close>.
\<close>

definition Camera_screenToWorld ::
  "real \<Rightarrow> real \<Rightarrow> real \<Rightarrow> ObservablePoint3D \<Rightarrow> Camera
     \<Rightarrow> ObservablePoint3D option \<times> ObservablePoint3D \<times> Camera" where
  "Camera_screenToWorld x y distance point c =
     (let far = Camera_far c;
          c1 = Camera_set_far distance c;
          (vp, c2) = Camera_viewProjection c1
      in case Mat4_invert vp of
           None \<Rightarrow> (None, point, c2)
         | Some invertedViewProjection \<Rightarrow>
             (let clipSpace = Vec4_set (x / width (renderer c2) * 2 - 1)
                                (((y / height (renderer c2)) * 2 - 1) * - 1) 1 1;
                  c3 = Camera_set_far far c2;
                  worldSpace = Vec4_transformMat4 clipSpace invertedViewProjection;
                  worldSpace = worldSpace[3 := 1 / worldSpace ! 3];
                  worldSpace = fold (\<lambda>i ws. ws[i := ws ! i * ws ! 3]) [0, 1, 2] worldSpace;
                  point' = ObservablePoint3D_set (worldSpace ! 0) (worldSpace ! 1) (worldSpace ! 2) point
              in (Some point', point', c3)))"

definition Camera_worldToScreen ::
  "real \<Rightarrow> real \<Rightarrow> real \<Rightarrow> Point \<Rightarrow> Camera \<Rightarrow> Point \<times> Camera" where
  "Camera_worldToScreen x y z point c =
     (let worldSpace = Vec4_set x y z 1;
          (v, c1) = Camera_view c;
          viewSpace = Vec4_transformMat4 worldSpace v;
          (p, c2) = Camera_projection c1;
          clipSpace = Vec4_transformMat4 viewSpace p;
          clipSpace = (if clipSpace ! 3 \<noteq> 0
                       then fold (\<lambda>i cs. cs[i := cs ! i / cs ! 3]) [0, 1, 2] clipSpace
                       else clipSpace);
          w = width (renderer c2); h = height (renderer c2)
      in (Point_set ((clipSpace ! 0 + 1) / 2 * w) (h - (clipSpace ! 1 + 1) / 2 * h) point, c2))"

section \<open>MeshShader\<close>

text \<open>
  The class \<^verbatim>\<open>MeshShader\<close>. Its calls into the host engine (\<^verbatim>\<open>PIXI.Geometry\<close>,
  \<^verbatim>\<open>PIXI.Renderer\<close>) are recorded in the order in which they are made; a method returns
  the calls it made next to the objects it changed.

  \<^verbatim>\<open>PIXI.DRAW_MODES\<close> is the host's numeric enumeration of the WebGL drawing modes; its
  members count from \<^verbatim>\<open>POINTS = 0\<close> to \<^verbatim>\<open>TRIANGLE_FAN = 6\<close>. \<^verbatim>\<open>PIXI.State\<close> is an
  object, of which the shader sets three flags.
\<close>

datatype DRAW_MODES =
  POINTS | LINES | LINE_LOOP | LINE_STRIP | TRIANGLES | TRIANGLE_STRIP | TRIANGLE_FAN

fun DRAW_MODES_value :: "DRAW_MODES \<Rightarrow> nat" where
  "DRAW_MODES_value POINTS = 0"
| "DRAW_MODES_value LINES = 1"
| "DRAW_MODES_value LINE_LOOP = 2"
| "DRAW_MODES_value LINE_STRIP = 3"
| "DRAW_MODES_value TRIANGLES = 4"
| "DRAW_MODES_value TRIANGLE_STRIP = 5"
| "DRAW_MODES_value TRIANGLE_FAN = 6"

record State =
  culling :: bool
  clockwiseFrontFace :: bool
  depthTest :: bool

text \<open>
  Modelled from the spec: one attribute of a mesh geometry, with the three fields that
  the shader reads: a typed array (its elements, as numbers), the component type and the
  stride. \<^verbatim>\<open>new Uint32Array(typedArray)\<close> converts element by element: a number is
  truncated towards zero and reduced modulo \<open>2 ^ 32\<close>.
\<close>

record MeshGeometryAttribute =
  buffer :: "real list"
  componentType :: nat
  stride :: nat

definition ToUint32 :: "real \<Rightarrow> nat" where
  "ToUint32 v = nat ((if 0 \<le> v then \<lfloor>v\<rfloor> else \<lceil>v\<rceil>) mod 2 ^ 32)"

definition new_Uint32Array :: "real list \<Rightarrow> nat list" where
  "new_Uint32Array a = map ToUint32 a"

text \<open>The calls into the host engine, with their arguments.\<close>

datatype HostCall =
  addIndex "nat list"
| addAttribute string "real list" nat bool nat nat
| shader_bind string bool
| state_set State
| geometry_bind string
| geometry_draw DRAW_MODES

text \<open>
  Modelled from the spec: the class \<^verbatim>\<open>MeshGeometry3D\<close> (\<^verbatim>\<open>src/mesh/geometry\<close>), which
  is not among the source files. The shader reads its optional attributes
  \<^verbatim>\<open>indices\<close>, \<^verbatim>\<open>positions\<close>, \<^verbatim>\<open>uvs\<close>, \<^verbatim>\<open>normals\<close> and \<^verbatim>\<open>tangents\<close>. By the source's
  comment on \<^verbatim>\<open>MeshShader.name\<close>, the name of a shader is what decides whether the
  attributes of a geometry are compatible with it: the geometry keeps the names of the
  shaders whose attributes it has, \<^verbatim>\<open>hasShaderAttributes\<close> looks the shader's name up, and
  \<^verbatim>\<open>addShaderAttributes\<close> lets the shader add its attributes and keeps its name.
\<close>

record MeshGeometry3D =
  indices :: "MeshGeometryAttribute option"
  positions :: "MeshGeometryAttribute option"
  uvs :: "MeshGeometryAttribute list option"
  normals :: "MeshGeometryAttribute option"
  tangents :: "MeshGeometryAttribute option"
  shaders :: "string list"

text \<open>Modelled from the spec: the class \<^verbatim>\<open>Mesh3D\<close>, of which \<^verbatim>\<open>render\<close> uses the geometry.\<close>

record Mesh3D =
  geometry :: MeshGeometry3D

text \<open>
  The shader itself: its default state, its default draw mode and its name (the getter
  \<^verbatim>\<open>name\<close> of the class).
\<close>

record MeshShader =
  state :: State
  drawMode :: DRAW_MODES

definition MeshShader_new :: MeshShader where
  "MeshShader_new =
     \<lparr>state = \<lparr>culling = True, clockwiseFrontFace = False, depthTest = True\<rparr>,
      drawMode = TRIANGLES\<rparr>"

definition MeshShader_name :: "MeshShader \<Rightarrow> string" where
  "MeshShader_name sh = ''mesh-shader''"

text \<open>
  The five conditional calls of \<^verbatim>\<open>addGeometryAttributes\<close>. \<^verbatim>\<open>geometry.uvs[0]\<close> of an
  empty array is \<^verbatim>\<open>undefined\<close>.
\<close>

definition attribute_call :: "string \<Rightarrow> nat \<Rightarrow> MeshGeometryAttribute option \<Rightarrow> HostCall list" where
  "attribute_call ident n a =
     (case a of None \<Rightarrow> []
      | Some v \<Rightarrow> [addAttribute ident (buffer v) n False (componentType v) (stride v)])"

definition MeshShader_addGeometryAttributes :: "MeshShader \<Rightarrow> MeshGeometry3D \<Rightarrow> HostCall list" where
  "MeshShader_addGeometryAttributes sh g =
     (case indices g of None \<Rightarrow> [] | Some i \<Rightarrow> [addIndex (new_Uint32Array (buffer i))]) @
     attribute_call ''a_Position'' 3 (positions g) @
     attribute_call ''a_UV1'' 2
       (case uvs g of None \<Rightarrow> None | Some [] \<Rightarrow> None | Some (uv # _) \<Rightarrow> Some uv) @
     attribute_call ''a_Normal'' 3 (normals g) @
     attribute_call ''a_Tangent'' 4 (tangents g)"

text \<open>
  Modelled from the spec: \<^verbatim>\<open>MeshGeometry3D.hasShaderAttributes\<close>, whether the geometry
  has the attributes of the shader of this name.
\<close>

definition hasShaderAttributes :: "MeshShader \<Rightarrow> MeshGeometry3D \<Rightarrow> bool" where
  "hasShaderAttributes sh g = (MeshShader_name sh \<in> set (shaders g))"

text \<open>
  Modelled from the spec: \<^verbatim>\<open>MeshGeometry3D.addShaderAttributes\<close>, which has the shader
  add its attributes to the geometry and keeps the shader's name.
\<close>

definition addShaderAttributes :: "MeshShader \<Rightarrow> MeshGeometry3D \<Rightarrow> MeshGeometry3D \<times> HostCall list" where
  "addShaderAttributes sh g =
     (g\<lparr>shaders := shaders g @ [MeshShader_name sh]\<rparr>, MeshShader_addGeometryAttributes sh g)"

text \<open>
  \<^verbatim>\<open>state || this.state\<close>: a state is an object, and every object is truthy.
  \<^verbatim>\<open>drawMode || this.drawMode\<close>: a draw mode is a number, and 0 is falsy.
\<close>

definition state_or :: "State option \<Rightarrow> State \<Rightarrow> State" where
  "state_or s d = (case s of None \<Rightarrow> d | Some v \<Rightarrow> v)"

definition drawMode_or :: "DRAW_MODES option \<Rightarrow> DRAW_MODES \<Rightarrow> DRAW_MODES" where
  "drawMode_or m d =
     (case m of None \<Rightarrow> d | Some v \<Rightarrow> if DRAW_MODES_value v \<noteq> 0 then v else d)"

definition MeshShader_render ::
  "MeshShader \<Rightarrow> Mesh3D \<Rightarrow> State option \<Rightarrow> DRAW_MODES option \<Rightarrow> Mesh3D \<times> HostCall list" where
  "MeshShader_render sh mesh st dm =
     (let (g, added) = (if \<not> hasShaderAttributes sh (geometry mesh)
                        then addShaderAttributes sh (geometry mesh)
                        else (geometry mesh, []))
      in (mesh\<lparr>geometry := g\<rparr>,
          added @ [shader_bind (MeshShader_name sh) False,
                   state_set (state_or st (state sh)),
                   geometry_bind (MeshShader_name sh),
                   geometry_draw (drawMode_or dm (drawMode sh))]))"

section \<open>Describing the caches\<close>

text \<open>
  A component is up to date for a key when that key is the one it stored at its last
  read. \<open>cached_array\<close> is the array a component holds. \<open>cache_ok m k v\<close> says that a
  component which is up to date for \<open>k\<close> holds \<open>v\<close>.
\<close>

definition fresh :: "MatrixComponent option \<Rightarrow> nat \<Rightarrow> bool" where
  "fresh m k = (case m of None \<Rightarrow> False | Some mc \<Rightarrow> mc_id mc = Some k)"

definition cached_array :: "MatrixComponent option \<Rightarrow> Float32Array" where
  "cached_array m = (case m of None \<Rightarrow> [] | Some mc \<Rightarrow> mc_array mc)"

definition cache_ok :: "MatrixComponent option \<Rightarrow> nat \<Rightarrow> Float32Array \<Rightarrow> bool" where
  "cache_ok m k v = (fresh m k \<longrightarrow> cached_array m = v)"

text \<open>A setter that takes effect: the counter and the key grow by one, the components stay.\<close>

definition bumped :: "Camera \<Rightarrow> Camera \<Rightarrow> bool" where
  "bumped c c' =
     (p_id c' = p_id c + 1 \<and> Camera_id c' = Camera_id c + 1 \<and>
      p_projection c' = p_projection c \<and> p_view c' = p_view c \<and>
      p_viewProjection c' = p_viewProjection c \<and> p_target c' = p_target c)"

text \<open>The world position, forward and up vectors that the camera reads.\<close>

definition world_position :: "Camera \<Rightarrow> Float32Array" where
  "world_position c = position (worldTransform (transform c))"

definition world_forward :: "Camera \<Rightarrow> Float32Array" where
  "world_forward c = forward (worldTransform (transform c))"

definition world_up :: "Camera \<Rightarrow> Float32Array" where
  "world_up c = up (worldTransform (transform c))"

section \<open>Coherent caches\<close>

text \<open>
  The values that the update functions of the projection, the target and the view
  compute from the camera's current settings, renderer and world matrix.
\<close>

definition expected_projection :: "Camera \<Rightarrow> Float32Array" where
  "expected_projection c =
     Mat4_perspective (p_fieldOfView c * (pi / 180))
       (js_or (p_aspect c) (width (renderer c) / height (renderer c))) (p_near c) (p_far c)"

definition expected_target :: "Camera \<Rightarrow> Float32Array" where
  "expected_target c = Vec3_add (world_position c) (world_forward c)"

definition expected_view :: "Camera \<Rightarrow> Float32Array" where
  "expected_view c = Mat4_lookAt (world_position c) (expected_target c) (world_up c)"

text \<open>
  A camera is coherent, for a set \<open>R\<close> of ratios of a width to a height, when
  \<^item> no component has stored a key beyond the current one;
  \<^item> a projection component that is up to date holds the perspective matrix of the
    current field of view, near and far planes, and of the camera's aspect or else of
    a ratio in \<open>R\<close> (the renderer's, as it was when the matrix was computed: the renderer
    may have been resized since);
  \<^item> a target or view component that is up to date holds the value of the current world
    matrix;
  \<^item> when the view-projection component is up to date, so are the projection and the
    view component, and it holds their product.
\<close>

definition id_bounded :: "MatrixComponent option \<Rightarrow> nat \<Rightarrow> bool" where
  "id_bounded m k =
     (case m of None \<Rightarrow> True
      | Some mc \<Rightarrow> (case mc_id mc of None \<Rightarrow> True | Some j \<Rightarrow> j \<le> k))"

definition projection_ok :: "real set \<Rightarrow> Camera \<Rightarrow> bool" where
  "projection_ok R c =
     (fresh (p_projection c) (Camera_id c) \<longrightarrow>
        (\<exists>ratio\<in>R. cached_array (p_projection c) =
           Mat4_perspective (p_fieldOfView c * (pi / 180)) (js_or (p_aspect c) ratio)
             (p_near c) (p_far c)))"

definition viewProjection_ok :: "Camera \<Rightarrow> bool" where
  "viewProjection_ok c =
     (fresh (p_viewProjection c) (Camera_id c) \<longrightarrow>
        fresh (p_projection c) (Camera_id c) \<and> fresh (p_view c) (Camera_id c) \<and>
        cached_array (p_viewProjection c) =
          Mat4_multiply (cached_array (p_projection c)) (cached_array (p_view c)))"

definition coherent :: "real set \<Rightarrow> Camera \<Rightarrow> bool" where
  "coherent R c =
     (id_bounded (p_projection c) (Camera_id c) \<and> id_bounded (p_target c) (Camera_id c) \<and>
      id_bounded (p_view c) (Camera_id c) \<and> id_bounded (p_viewProjection c) (Camera_id c) \<and>
      projection_ok R c \<and>
      cache_ok (p_target c) (Camera_id c) (expected_target c) \<and>
      cache_ok (p_view c) (Camera_id c) (expected_view c) \<and>
      viewProjection_ok c)"

text \<open>
  What the camera relies on in the host's update of a transform: \<^verbatim>\<open>_worldID\<close> never
  decreases, and it increases when the world matrix changes.
\<close>

definition update_ok :: "(Transform3D \<Rightarrow> Transform3D) \<Rightarrow> bool" where
  "update_ok upd =
     (\<forall>t. worldID t \<le> worldID (upd t) \<and>
          (worldID (upd t) = worldID t \<longrightarrow> worldTransform (upd t) = worldTransform t))"

text \<open>
  What happens to a camera: its setters, its getters, the prerender callback, the host's
  update of the transform of a camera in the scene hierarchy, a resize of the renderer
  (which changes the \<^verbatim>\<open>width\<close> and \<^verbatim>\<open>height\<close> that the camera reads and nothing of the
  camera itself), and the two conversions. \<open>apply_op\<close> is the camera after one of them.
\<close>

datatype CameraOp =
  Set_aspect "real option" | Set_fieldOfView real | Set_near real | Set_far real
| Get_projection | Get_target | Get_view | Get_viewProjection
| Prerender | SceneUpdate | Resize real real
| ScreenToWorld real real real ObservablePoint3D | WorldToScreen real real real Point

fun apply_op :: "(Transform3D \<Rightarrow> Transform3D) \<Rightarrow> CameraOp \<Rightarrow> Camera \<Rightarrow> Camera" where
  "apply_op upd (Set_aspect v) c = Camera_set_aspect v c"
| "apply_op upd (Set_fieldOfView v) c = Camera_set_fieldOfView v c"
| "apply_op upd (Set_near v) c = Camera_set_near v c"
| "apply_op upd (Set_far v) c = Camera_set_far v c"
| "apply_op upd Get_projection c = snd (Camera_projection c)"
| "apply_op upd Get_target c = snd (Camera_target c)"
| "apply_op upd Get_view c = snd (Camera_view c)"
| "apply_op upd Get_viewProjection c = snd (Camera_viewProjection c)"
| "apply_op upd Prerender c = Camera_prerender upd c"
| "apply_op upd SceneUpdate c = c\<lparr>transform := upd (transform c)\<rparr>"
| "apply_op upd (Resize w h) c = c\<lparr>renderer := (renderer c)\<lparr>width := w, height := h\<rparr>\<rparr>"
| "apply_op upd (ScreenToWorld x y d p) c = snd (snd (Camera_screenToWorld x y d p c))"
| "apply_op upd (WorldToScreen x y z p) c = snd (Camera_worldToScreen x y z p c)"

text \<open>
  The ratio of the renderer's width to its height, and the ratios that the renderer of a
  camera has had from the camera \<open>c\<close> on, while the operations \<open>ops\<close> happened to it.
\<close>

definition renderer_ratio :: "Camera \<Rightarrow> real" where
  "renderer_ratio c = width (renderer c) / height (renderer c)"

definition renderer_ratios :: "(Transform3D \<Rightarrow> Transform3D) \<Rightarrow> CameraOp list \<Rightarrow> Camera \<Rightarrow> real set" where
  "renderer_ratios upd ops c =
     (\<lambda>k. renderer_ratio (fold (apply_op upd) (take k ops) c)) ` {..length ops}"

section \<open>Example objects\<close>

text \<open>
  A camera as the constructor leaves it, on a renderer of 800 by 600 pixels, whose world
  matrix places it at \<open>z = 5\<close> looking towards negative \<open>z\<close> (the constructor's
  documented default).
\<close>

definition example_transform :: Transform3D where
  "example_transform =
     \<lparr>worldID = 0, local_position = ObservablePoint3D_new, rotationQuaternion = (0, 0, 0),
      worldTransform = \<lparr>position = [0, 0, 5], forward = [0, 0, - 1], up = [0, 1, 0]\<rparr>\<rparr>"

definition example_base :: Container3D where
  "example_base = \<lparr>transform = example_transform, parent = None\<rparr>"

definition example_renderer :: Renderer where
  "example_renderer = \<lparr>width = 800, height = 600\<rparr>"

definition example_camera :: Camera where
  "example_camera = Camera_fields example_base example_renderer"

text \<open>A host update of the transform that increments \<^verbatim>\<open>_worldID\<close>.\<close>

definition example_update :: "Transform3D \<Rightarrow> Transform3D" where
  "example_update t = t\<lparr>worldID := worldID t + 1\<rparr>"

section \<open>Reading a cached matrix\<close>

lemmas getter_defs =
  Camera_projection_def projection_update_def Camera_target_def target_update_def
  Camera_view_def view_update_def Camera_viewProjection_def viewProjection_update_def
  MatrixComponent_array_def MatrixComponent_new_def Camera_id_def

text \<open>A component that is up to date is returned as it is, and the camera does not change.\<close>

lemma projection_fresh:
  "fresh (p_projection c) (Camera_id c) \<Longrightarrow> Camera_projection c = (cached_array (p_projection c), c)"
  by (auto simp: fresh_def cached_array_def getter_defs split: option.splits)

lemma target_fresh:
  "fresh (p_target c) (Camera_id c) \<Longrightarrow> Camera_target c = (cached_array (p_target c), c)"
  by (auto simp: fresh_def cached_array_def getter_defs split: option.splits)

lemma view_fresh:
  "fresh (p_view c) (Camera_id c) \<Longrightarrow> Camera_view c = (cached_array (p_view c), c)"
  by (auto simp: fresh_def cached_array_def Camera_view_def MatrixComponent_array_def Camera_id_def
      split: option.splits)

lemma viewProjection_fresh:
  "fresh (p_viewProjection c) (Camera_id c) \<Longrightarrow>
   Camera_viewProjection c = (cached_array (p_viewProjection c), c)"
  by (auto simp: fresh_def cached_array_def Camera_viewProjection_def MatrixComponent_array_def
      Camera_id_def split: option.splits)

text \<open>A component that is missing or out of date is recomputed by its update function.\<close>

lemma projection_stale:
  "\<not> fresh (p_projection c) (Camera_id c) \<Longrightarrow>
   fst (Camera_projection c) =
     Mat4_perspective (p_fieldOfView c * (pi / 180))
       (js_or (p_aspect c) (width (renderer c) / height (renderer c))) (p_near c) (p_far c)"
  by (auto simp: fresh_def getter_defs split: option.splits)

lemma target_stale:
  "\<not> fresh (p_target c) (Camera_id c) \<Longrightarrow>
   fst (Camera_target c) = Vec3_add (world_position c) (world_forward c)"
  by (auto simp: fresh_def getter_defs world_position_def world_forward_def split: option.splits)

lemma view_stale:
  "\<not> fresh (p_view c) (Camera_id c) \<Longrightarrow>
   fst (Camera_view c) = Mat4_lookAt (world_position c) (fst (Camera_target c)) (world_up c)"
  by (auto simp: fresh_def getter_defs Let_def world_position_def world_up_def
      split: option.splits prod.splits)

lemma viewProjection_stale:
  "\<not> fresh (p_viewProjection c) (Camera_id c) \<Longrightarrow>
   fst (Camera_viewProjection c) = Mat4_multiply (fst (Camera_projection c)) (fst (Camera_view c))"
  by (auto simp: fresh_def getter_defs Let_def split: option.splits prod.splits)

text \<open>After a read the component holds the array returned, under the current key.\<close>

lemma projection_stored:
  "p_projection (snd (Camera_projection c)) =
     Some \<lparr>mc_id = Some (Camera_id c), mc_array = fst (Camera_projection c)\<rparr>"
  by (auto simp: getter_defs split: option.splits)

lemma target_stored:
  "p_target (snd (Camera_target c)) =
     Some \<lparr>mc_id = Some (Camera_id c), mc_array = fst (Camera_target c)\<rparr>"
  by (auto simp: getter_defs Let_def split: option.splits prod.splits)

lemma view_stored:
  "p_view (snd (Camera_view c)) =
     Some \<lparr>mc_id = Some (Camera_id c), mc_array = fst (Camera_view c)\<rparr>"
  by (auto simp: getter_defs Let_def split: option.splits prod.splits)

lemma viewProjection_stored:
  "p_viewProjection (snd (Camera_viewProjection c)) =
     Some \<lparr>mc_id = Some (Camera_id c), mc_array = fst (Camera_viewProjection c)\<rparr>"
  by (auto simp: getter_defs Let_def split: option.splits prod.splits)

text \<open>No getter changes the key.\<close>

lemma getter_keeps_id:
  "Camera_id (snd (Camera_projection c)) = Camera_id c"
  "Camera_id (snd (Camera_target c)) = Camera_id c"
  "Camera_id (snd (Camera_view c)) = Camera_id c"
  "Camera_id (snd (Camera_viewProjection c)) = Camera_id c"
  by (auto simp: getter_defs Let_def split: option.splits prod.splits)

lemma reread_projection:
  "Camera_projection (snd (Camera_projection c)) =
     (fst (Camera_projection c), snd (Camera_projection c))"
  by (simp add: projection_fresh fresh_def cached_array_def projection_stored getter_keeps_id)

lemma reread_view:
  "Camera_view (snd (Camera_view c)) = (fst (Camera_view c), snd (Camera_view c))"
  by (simp add: view_fresh fresh_def cached_array_def view_stored getter_keeps_id)

lemma reread_viewProjection:
  "Camera_viewProjection (snd (Camera_viewProjection c)) =
     (fst (Camera_viewProjection c), snd (Camera_viewProjection c))"
  by (simp add: viewProjection_fresh fresh_def cached_array_def viewProjection_stored
      getter_keeps_id)

text \<open>
  The camera after a getter: the component read holds the array returned under the
  current key, the components that the update function read are as their getters left
  them, and nothing else has changed.
\<close>

lemma projection_state:
  "snd (Camera_projection c) =
     c\<lparr>p_projection := Some \<lparr>mc_id = Some (Camera_id c), mc_array = fst (Camera_projection c)\<rparr>\<rparr>"
  by (auto simp: getter_defs split: option.splits)

lemma target_state:
  "snd (Camera_target c) =
     c\<lparr>p_target := Some \<lparr>mc_id = Some (Camera_id c), mc_array = fst (Camera_target c)\<rparr>\<rparr>"
  by (auto simp: getter_defs split: option.splits)

lemma view_state:
  "snd (Camera_view c) =
     (if fresh (p_view c) (Camera_id c) then c else snd (Camera_target c))
       \<lparr>p_view := Some \<lparr>mc_id = Some (Camera_id c), mc_array = fst (Camera_view c)\<rparr>\<rparr>"
  by (auto simp: getter_defs fresh_def Let_def split: option.splits prod.splits)

lemma id_upd:
  "Camera_id (c\<lparr>p_projection := x\<rparr>) = Camera_id c"
  "Camera_id (c\<lparr>p_target := x\<rparr>) = Camera_id c"
  "Camera_id (c\<lparr>p_view := x\<rparr>) = Camera_id c"
  "Camera_id (c\<lparr>p_viewProjection := x\<rparr>) = Camera_id c"
  by (simp_all add: Camera_id_def)

lemma projection_vp_upd:
  "Camera_projection (c\<lparr>p_viewProjection := x\<rparr>) =
     (fst (Camera_projection c), (snd (Camera_projection c))\<lparr>p_viewProjection := x\<rparr>)"
  by (auto simp: getter_defs split: option.splits)

lemma view_vp_upd:
  "Camera_view (c\<lparr>p_viewProjection := x\<rparr>) =
     (fst (Camera_view c), (snd (Camera_view c))\<lparr>p_viewProjection := x\<rparr>)"
  by (auto simp: getter_defs Let_def split: option.splits prod.splits)

lemma fresh_restore:
  "fresh (p_viewProjection c) (Camera_id c) \<Longrightarrow>
   c\<lparr>p_viewProjection :=
       Some \<lparr>mc_id = Some (Camera_id c), mc_array = cached_array (p_viewProjection c)\<rparr>\<rparr> = c"
  by (auto simp: fresh_def cached_array_def split: option.splits)

lemma viewProjection_state:
  "snd (Camera_viewProjection c) =
     (if fresh (p_viewProjection c) (Camera_id c) then c
      else snd (Camera_view (snd (Camera_projection c))))
       \<lparr>p_viewProjection :=
          Some \<lparr>mc_id = Some (Camera_id c), mc_array = fst (Camera_viewProjection c)\<rparr>\<rparr>"
proof (cases "fresh (p_viewProjection c) (Camera_id c)")
  case True
  then show ?thesis by (simp add: viewProjection_fresh fresh_restore)
next
  case False
  then have "(case p_viewProjection c of None \<Rightarrow> MatrixComponent_new 16 | Some m \<Rightarrow> m) = m \<Longrightarrow>
      mc_id m \<noteq> Some (Camera_id c)" for m
    by (auto simp: fresh_def MatrixComponent_new_def split: option.splits)
  then show ?thesis
    using False
    by (simp add: Camera_viewProjection_def MatrixComponent_array_def viewProjection_update_def
      case_prod_beta projection_vp_upd view_vp_upd getter_keeps_id id_upd Let_def)
qed

section \<open>The setters\<close>

lemma set_fieldOfView_changed:
  "v \<noteq> p_fieldOfView c \<Longrightarrow>
   bumped c (Camera_set_fieldOfView v c) \<and> Camera_fieldOfView (Camera_set_fieldOfView v c) = v"
  by (auto simp: bumped_def Camera_set_fieldOfView_def Camera_fieldOfView_def Camera_id_def)

lemma set_near_changed:
  "v \<noteq> p_near c \<Longrightarrow> bumped c (Camera_set_near v c) \<and> Camera_near (Camera_set_near v c) = v"
  by (auto simp: bumped_def Camera_set_near_def Camera_near_def Camera_id_def)

lemma set_far_changed:
  "v \<noteq> p_far c \<Longrightarrow> bumped c (Camera_set_far v c) \<and> Camera_far (Camera_set_far v c) = v"
  by (auto simp: bumped_def Camera_set_far_def Camera_far_def Camera_id_def)

lemma set_aspect_changed:
  "v \<noteq> p_aspect c \<Longrightarrow>
   bumped c (Camera_set_aspect v c) \<and> Camera_aspect (Camera_set_aspect v c) = v"
  by (auto simp: bumped_def Camera_set_aspect_def Camera_aspect_def Camera_id_def)

lemma set_same:
  "Camera_set_fieldOfView (p_fieldOfView c) c = c" "Camera_set_near (p_near c) c = c"
  "Camera_set_far (p_far c) c = c" "Camera_set_aspect (p_aspect c) c = c"
  by (simp_all add: Camera_set_far_def Camera_set_near_def Camera_set_fieldOfView_def
      Camera_set_aspect_def)

lemma bumped_invalidates:
  "bumped c c' \<Longrightarrow> fresh m (Camera_id c) \<Longrightarrow> \<not> fresh m (Camera_id c')"
  by (auto simp: bumped_def fresh_def split: option.splits)

lemma example_camera_simps:
  "p_projection example_camera = None" "p_view example_camera = None"
  "p_viewProjection example_camera = None" "p_target example_camera = None"
  "p_id example_camera = 0" "p_fieldOfView example_camera = 60" "p_near example_camera = 1 / 10"
  "p_far example_camera = 1000" "p_aspect example_camera = None"
  "renderer example_camera = example_renderer" "transform example_camera = example_transform"
  "parent example_camera = None"
  by (simp_all add: example_camera_def Camera_fields_def example_base_def)

text \<open>
  C1. The key \<^verbatim>\<open>id\<close> of a camera is the transform's \<^verbatim>\<open>_worldID\<close> plus the dirty counter
  \<^verbatim>\<open>_id\<close>. The projection, view and view-projection matrices are recomputed lazily, only
  when the key has changed since the last read:
  \<^item> a component that stored the current key at its last read is returned as it is and
    the camera does not change;
  \<^item> a component that is missing or stored another key is recomputed by its update
    function;
  \<^item> every read leaves the array that it returns in the component, stored under the
    current key, and does not change the key, so that the component is up to date
    after the read; a read of the projection changes nothing else, a read of the view
    that recomputes has read the target besides, and a read of the view-projection that
    recomputes has read the projection and then the view besides;
  \<^item> hence a second read straight after a read recomputes nothing.

  Setting \<^verbatim>\<open>fieldOfView\<close>, \<^verbatim>\<open>near\<close>, \<^verbatim>\<open>far\<close> or \<^verbatim>\<open>aspect\<close> to a value that differs
  from the current one stores the value and increments the counter, hence the key, and
  leaves the components alone, so that every component that was up to date is out of date
  afterwards; setting the current value again changes nothing at all.
\<close>

theorem Camera_id_gates_recomputation:
  "Camera_id c = worldID (transform c) + p_id c \<and>
   (fresh (p_projection c) (Camera_id c) \<longrightarrow>
      Camera_projection c = (cached_array (p_projection c), c)) \<and>
   (fresh (p_view c) (Camera_id c) \<longrightarrow> Camera_view c = (cached_array (p_view c), c)) \<and>
   (fresh (p_viewProjection c) (Camera_id c) \<longrightarrow>
      Camera_viewProjection c = (cached_array (p_viewProjection c), c)) \<and>
   (\<not> fresh (p_projection c) (Camera_id c) \<longrightarrow>
      fst (Camera_projection c) =
        Mat4_perspective (p_fieldOfView c * (pi / 180))
          (js_or (p_aspect c) (width (renderer c) / height (renderer c))) (p_near c) (p_far c)) \<and>
   (\<not> fresh (p_view c) (Camera_id c) \<longrightarrow>
      fst (Camera_view c) = Mat4_lookAt (world_position c) (fst (Camera_target c)) (world_up c)) \<and>
   (\<not> fresh (p_viewProjection c) (Camera_id c) \<longrightarrow>
      fst (Camera_viewProjection c) =
        Mat4_multiply (fst (Camera_projection c)) (fst (Camera_view c))) \<and>
   Camera_projection (snd (Camera_projection c)) =
     (fst (Camera_projection c), snd (Camera_projection c)) \<and>
   Camera_view (snd (Camera_view c)) = (fst (Camera_view c), snd (Camera_view c)) \<and>
   Camera_viewProjection (snd (Camera_viewProjection c)) =
     (fst (Camera_viewProjection c), snd (Camera_viewProjection c)) \<and>
   (fov \<noteq> p_fieldOfView c \<longrightarrow>
      bumped c (Camera_set_fieldOfView fov c) \<and>
      Camera_fieldOfView (Camera_set_fieldOfView fov c) = fov) \<and>
   (n \<noteq> p_near c \<longrightarrow>
      bumped c (Camera_set_near n c) \<and> Camera_near (Camera_set_near n c) = n) \<and>
   (f \<noteq> p_far c \<longrightarrow>
      bumped c (Camera_set_far f c) \<and> Camera_far (Camera_set_far f c) = f) \<and>
   (a \<noteq> p_aspect c \<longrightarrow>
      bumped c (Camera_set_aspect a c) \<and> Camera_aspect (Camera_set_aspect a c) = a) \<and>
   Camera_set_fieldOfView (p_fieldOfView c) c = c \<and>
   Camera_set_near (p_near c) c = c \<and>
   Camera_set_far (p_far c) c = c \<and>
   Camera_set_aspect (p_aspect c) c = c \<and>
   (bumped c c' \<and> fresh m (Camera_id c) \<longrightarrow> \<not> fresh m (Camera_id c')) \<and>
   p_projection (snd (Camera_projection c)) =
     Some \<lparr>mc_id = Some (Camera_id c), mc_array = fst (Camera_projection c)\<rparr> \<and>
   p_view (snd (Camera_view c)) =
     Some \<lparr>mc_id = Some (Camera_id c), mc_array = fst (Camera_view c)\<rparr> \<and>
   p_viewProjection (snd (Camera_viewProjection c)) =
     Some \<lparr>mc_id = Some (Camera_id c), mc_array = fst (Camera_viewProjection c)\<rparr> \<and>
   Camera_id (snd (Camera_projection c)) = Camera_id c \<and>
   Camera_id (snd (Camera_view c)) = Camera_id c \<and>
   Camera_id (snd (Camera_viewProjection c)) = Camera_id c \<and>
   fresh (p_projection (snd (Camera_projection c))) (Camera_id (snd (Camera_projection c))) \<and>
   fresh (p_view (snd (Camera_view c))) (Camera_id (snd (Camera_view c))) \<and>
   fresh (p_viewProjection (snd (Camera_viewProjection c)))
     (Camera_id (snd (Camera_viewProjection c))) \<and>
   snd (Camera_projection c) =
     c\<lparr>p_projection :=
         Some \<lparr>mc_id = Some (Camera_id c), mc_array = fst (Camera_projection c)\<rparr>\<rparr> \<and>
   snd (Camera_view c) =
     (if fresh (p_view c) (Camera_id c) then c else snd (Camera_target c))
       \<lparr>p_view := Some \<lparr>mc_id = Some (Camera_id c), mc_array = fst (Camera_view c)\<rparr>\<rparr> \<and>
   snd (Camera_viewProjection c) =
     (if fresh (p_viewProjection c) (Camera_id c) then c
      else snd (Camera_view (snd (Camera_projection c))))
       \<lparr>p_viewProjection :=
          Some \<lparr>mc_id = Some (Camera_id c), mc_array = fst (Camera_viewProjection c)\<rparr>\<rparr>"
proof -
  have old:
    "Camera_id c = worldID (transform c) + p_id c \<and>
     (fresh (p_projection c) (Camera_id c) \<longrightarrow>
        Camera_projection c = (cached_array (p_projection c), c)) \<and>
     (fresh (p_view c) (Camera_id c) \<longrightarrow> Camera_view c = (cached_array (p_view c), c)) \<and>
     (fresh (p_viewProjection c) (Camera_id c) \<longrightarrow>
        Camera_viewProjection c = (cached_array (p_viewProjection c), c)) \<and>
     (\<not> fresh (p_projection c) (Camera_id c) \<longrightarrow>
        fst (Camera_projection c) =
          Mat4_perspective (p_fieldOfView c * (pi / 180))
            (js_or (p_aspect c) (width (renderer c) / height (renderer c))) (p_near c) (p_far c)) \<and>
     (\<not> fresh (p_view c) (Camera_id c) \<longrightarrow>
        fst (Camera_view c) = Mat4_lookAt (world_position c) (fst (Camera_target c)) (world_up c)) \<and>
     (\<not> fresh (p_viewProjection c) (Camera_id c) \<longrightarrow>
        fst (Camera_viewProjection c) =
          Mat4_multiply (fst (Camera_projection c)) (fst (Camera_view c))) \<and>
     Camera_projection (snd (Camera_projection c)) =
       (fst (Camera_projection c), snd (Camera_projection c)) \<and>
     Camera_view (snd (Camera_view c)) = (fst (Camera_view c), snd (Camera_view c)) \<and>
     Camera_viewProjection (snd (Camera_viewProjection c)) =
       (fst (Camera_viewProjection c), snd (Camera_viewProjection c)) \<and>
     (fov \<noteq> p_fieldOfView c \<longrightarrow>
        bumped c (Camera_set_fieldOfView fov c) \<and>
        Camera_fieldOfView (Camera_set_fieldOfView fov c) = fov) \<and>
     (n \<noteq> p_near c \<longrightarrow>
        bumped c (Camera_set_near n c) \<and> Camera_near (Camera_set_near n c) = n) \<and>
     (f \<noteq> p_far c \<longrightarrow>
        bumped c (Camera_set_far f c) \<and> Camera_far (Camera_set_far f c) = f) \<and>
     (a \<noteq> p_aspect c \<longrightarrow>
        bumped c (Camera_set_aspect a c) \<and> Camera_aspect (Camera_set_aspect a c) = a) \<and>
     Camera_set_fieldOfView (p_fieldOfView c) c = c \<and>
     Camera_set_near (p_near c) c = c \<and>
     Camera_set_far (p_far c) c = c \<and>
     Camera_set_aspect (p_aspect c) c = c \<and>
     (bumped c c' \<and> fresh m (Camera_id c) \<longrightarrow> \<not> fresh m (Camera_id c'))"
    using projection_fresh [of c] view_fresh [of c] viewProjection_fresh [of c]
      projection_stale [of c] view_stale [of c] viewProjection_stale [of c]
      reread_projection [of c] reread_view [of c] reread_viewProjection [of c]
      set_fieldOfView_changed [of fov c] set_near_changed [of n c] set_far_changed [of f c]
      set_aspect_changed [of a c] set_same [of c] bumped_invalidates [of c c' m]
    by (simp add: Camera_id_def)
  have stored:
    "p_projection (snd (Camera_projection c)) =
       Some \<lparr>mc_id = Some (Camera_id c), mc_array = fst (Camera_projection c)\<rparr> \<and>
     p_view (snd (Camera_view c)) =
       Some \<lparr>mc_id = Some (Camera_id c), mc_array = fst (Camera_view c)\<rparr> \<and>
     p_viewProjection (snd (Camera_viewProjection c)) =
       Some \<lparr>mc_id = Some (Camera_id c), mc_array = fst (Camera_viewProjection c)\<rparr>"
    by (simp only: projection_stored view_stored viewProjection_stored simp_thms)
  have kept:
    "Camera_id (snd (Camera_projection c)) = Camera_id c \<and>
     Camera_id (snd (Camera_view c)) = Camera_id c \<and>
     Camera_id (snd (Camera_viewProjection c)) = Camera_id c"
    by (simp only: getter_keeps_id simp_thms)
  have after:
    "fresh (p_projection (snd (Camera_projection c))) (Camera_id (snd (Camera_projection c))) \<and>
     fresh (p_view (snd (Camera_view c))) (Camera_id (snd (Camera_view c))) \<and>
     fresh (p_viewProjection (snd (Camera_viewProjection c)))
       (Camera_id (snd (Camera_viewProjection c)))"
    by (simp add: fresh_def projection_stored view_stored viewProjection_stored getter_keeps_id)
  note state = projection_state [of c] view_state [of c] viewProjection_state [of c]
  show ?thesis
    by (intro conjI old [THEN conjunct1] stored [THEN conjunct1] kept [THEN conjunct1]
        after [THEN conjunct1] state)
      (use old stored kept after in blast)+
qed

text \<open>
  The example camera. Its first read of the projection computes the matrix and leaves the
  component up to date; the second read returns the matrix again; setting \<^verbatim>\<open>far\<close> to 500
  then puts the component out of date. Its first read of the view and of the
  view-projection leave these components up to date, with the arrays returned in them,
  and the first read of the view-projection has left the projection and the view
  component up to date as well.
\<close>

theorem Camera_id_gates_recomputation_witness:
  "\<not> fresh (p_projection example_camera) (Camera_id example_camera) \<and>
   fst (Camera_projection example_camera) =
     Mat4_perspective (60 * (pi / 180)) (800 / 600) (1 / 10) 1000 \<and>
   fresh (p_projection (snd (Camera_projection example_camera)))
     (Camera_id (snd (Camera_projection example_camera))) \<and>
   Camera_projection (snd (Camera_projection example_camera)) =
     (Mat4_perspective (60 * (pi / 180)) (800 / 600) (1 / 10) 1000,
      snd (Camera_projection example_camera)) \<and>
   500 \<noteq> p_far (snd (Camera_projection example_camera)) \<and>
   bumped (snd (Camera_projection example_camera))
     (Camera_set_far 500 (snd (Camera_projection example_camera))) \<and>
   \<not> fresh (p_projection (Camera_set_far 500 (snd (Camera_projection example_camera))))
       (Camera_id (Camera_set_far 500 (snd (Camera_projection example_camera)))) \<and>
   \<not> fresh (p_view example_camera) (Camera_id example_camera) \<and>
   fresh (p_view (snd (Camera_view example_camera)))
     (Camera_id (snd (Camera_view example_camera))) \<and>
   cached_array (p_view (snd (Camera_view example_camera))) = fst (Camera_view example_camera) \<and>
   \<not> fresh (p_viewProjection example_camera) (Camera_id example_camera) \<and>
   fresh (p_viewProjection (snd (Camera_viewProjection example_camera)))
     (Camera_id (snd (Camera_viewProjection example_camera))) \<and>
   cached_array (p_viewProjection (snd (Camera_viewProjection example_camera))) =
     fst (Camera_viewProjection example_camera) \<and>
   fresh (p_projection (snd (Camera_viewProjection example_camera)))
     (Camera_id (snd (Camera_viewProjection example_camera))) \<and>
   fresh (p_view (snd (Camera_viewProjection example_camera)))
     (Camera_id (snd (Camera_viewProjection example_camera)))"
proof -
  let ?c = example_camera
  let ?c1 = "snd (Camera_projection ?c)"
  let ?c2 = "Camera_set_far 500 ?c1"
  note C = Camera_id_gates_recomputation [of ?c 0 0 0 None ?c None]
  note C4 = C [THEN conjunct2, THEN conjunct2, THEN conjunct2, THEN conjunct2]
  note C7 = C4 [THEN conjunct2, THEN conjunct2, THEN conjunct2]
  note C19 = C7 [THEN conjunct2, THEN conjunct2, THEN conjunct2, THEN conjunct2,
    THEN conjunct2, THEN conjunct2, THEN conjunct2, THEN conjunct2, THEN conjunct2,
    THEN conjunct2, THEN conjunct2, THEN conjunct2]
  note C22 = C19 [THEN conjunct2, THEN conjunct2, THEN conjunct2]
  note C25 = C22 [THEN conjunct2, THEN conjunct2, THEN conjunct2]
  note C28 = C25 [THEN conjunct2, THEN conjunct2, THEN conjunct2]
  note D = Camera_id_gates_recomputation [of ?c1 0 0 500 None ?c2 "p_projection ?c1"]
  note D12 = D [THEN conjunct2, THEN conjunct2, THEN conjunct2, THEN conjunct2,
    THEN conjunct2, THEN conjunct2, THEN conjunct2, THEN conjunct2, THEN conjunct2,
    THEN conjunct2, THEN conjunct2, THEN conjunct2]
  note D18 = D12 [THEN conjunct2, THEN conjunct2, THEN conjunct2, THEN conjunct2,
    THEN conjunct2, THEN conjunct2]
  note D20 = D18 [THEN conjunct2, THEN conjunct2]
  have stale: "\<not> fresh (p_projection ?c) (Camera_id ?c)"
    by (simp add: fresh_def example_camera_simps)
  have val: "fst (Camera_projection ?c) = Mat4_perspective (60 * (pi / 180)) (800 / 600) (1 / 10) 1000"
    using C4 [THEN conjunct1] stale
    by (simp add: example_camera_simps example_renderer_def js_or_def)
  have far1: "p_far ?c1 = 1000"
    by (simp add: getter_defs example_camera_simps split: option.splits)
  have fresh1: "fresh (p_projection ?c1) (Camera_id ?c1)"
    by (rule C25 [THEN conjunct1])
  have again: "Camera_projection ?c1 = (fst (Camera_projection ?c), ?c1)"
    by (rule C7 [THEN conjunct1])
  have neq: "500 \<noteq> p_far ?c1" using far1 by simp
  have b: "bumped ?c1 ?c2"
    using D12 [THEN conjunct1] neq by simp
  have unchanged: "p_projection ?c2 = p_projection ?c1" using b by (simp add: bumped_def)
  have inval: "\<not> fresh (p_projection ?c2) (Camera_id ?c2)"
    using D18 [THEN conjunct1] b fresh1 unchanged by simp
  have stale_v: "\<not> fresh (p_view ?c) (Camera_id ?c)"
    by (simp add: fresh_def example_camera_simps)
  have fresh_v: "fresh (p_view (snd (Camera_view ?c))) (Camera_id (snd (Camera_view ?c)))"
    by (rule C25 [THEN conjunct2, THEN conjunct1])
  have stored_v: "p_view (snd (Camera_view ?c)) =
      Some \<lparr>mc_id = Some (Camera_id ?c), mc_array = fst (Camera_view ?c)\<rparr>"
    by (rule C19 [THEN conjunct2, THEN conjunct1])
  have arr_v: "cached_array (p_view (snd (Camera_view ?c))) = fst (Camera_view ?c)"
    unfolding stored_v by (simp add: cached_array_def)
  have stale_vp: "\<not> fresh (p_viewProjection ?c) (Camera_id ?c)"
    by (simp add: fresh_def example_camera_simps)
  have fresh_vp: "fresh (p_viewProjection (snd (Camera_viewProjection ?c)))
      (Camera_id (snd (Camera_viewProjection ?c)))"
    by (rule C25 [THEN conjunct2, THEN conjunct2, THEN conjunct1])
  have stored_vp: "p_viewProjection (snd (Camera_viewProjection ?c)) =
      Some \<lparr>mc_id = Some (Camera_id ?c), mc_array = fst (Camera_viewProjection ?c)\<rparr>"
    by (rule C19 [THEN conjunct2, THEN conjunct2, THEN conjunct1])
  have arr_vp: "cached_array (p_viewProjection (snd (Camera_viewProjection ?c))) =
      fst (Camera_viewProjection ?c)"
    unfolding stored_vp by (simp add: cached_array_def)
  have st: "snd (Camera_viewProjection ?c) =
      (snd (Camera_view ?c1))\<lparr>p_viewProjection :=
          Some \<lparr>mc_id = Some (Camera_id ?c), mc_array = fst (Camera_viewProjection ?c)\<rparr>\<rparr>"
    using C28 [THEN conjunct2, THEN conjunct2] stale_vp by simp
  have id_vp: "Camera_id (snd (Camera_viewProjection ?c)) = Camera_id ?c"
    by (rule C22 [THEN conjunct2, THEN conjunct2, THEN conjunct1])
  have id1: "Camera_id ?c1 = Camera_id ?c"
    by (rule C22 [THEN conjunct1])
  have v1: "p_view (snd (Camera_view ?c1)) =
      Some \<lparr>mc_id = Some (Camera_id ?c1), mc_array = fst (Camera_view ?c1)\<rparr>"
    by (rule D20 [THEN conjunct1])
  have p1: "p_projection (snd (Camera_view ?c1)) = p_projection ?c1"
    by (simp add: view_state target_state)
  have pvp: "p_projection (snd (Camera_viewProjection ?c)) = p_projection ?c1"
    unfolding st by (simp add: p1)
  have vvp: "p_view (snd (Camera_viewProjection ?c)) = p_view (snd (Camera_view ?c1))"
    unfolding st by simp
  have fresh_p_vp: "fresh (p_projection (snd (Camera_viewProjection ?c)))
      (Camera_id (snd (Camera_viewProjection ?c)))"
    using fresh1 unfolding id_vp pvp id1 .
  have fresh_v_vp: "fresh (p_view (snd (Camera_viewProjection ?c)))
      (Camera_id (snd (Camera_viewProjection ?c)))"
    unfolding id_vp vvp v1 id1 by (simp add: fresh_def)
  show ?thesis
    using stale val fresh1 again neq b inval stale_v fresh_v arr_v stale_vp fresh_vp arr_vp
      fresh_p_vp fresh_v_vp
    by simp
qed

section \<open>What the getters return\<close>

lemma example_world:
  "world_position example_camera = [0, 0, 5]" "world_forward example_camera = [0, 0, - 1]"
  "world_up example_camera = [0, 1, 0]"
  by (simp_all add: world_position_def world_forward_def world_up_def example_camera_simps
      example_transform_def)

lemma example_lookAt:
  "Mat4_lookAt [0, 0, 5] [0, 0, 4] [0, 1, 0] = [1, 0, 0, 0,  0, 1, 0, 0,  0, 0, 1, 0,  0, 0, - 5, 1]"
  by (simp add: Mat4_lookAt_def Vec3_length_def Let_def)

lemma target_cached:
  assumes "cache_ok (p_target c) (Camera_id c) (Vec3_add (world_position c) (world_forward c))"
  shows "fst (Camera_target c) = Vec3_add (world_position c) (world_forward c)"
proof (cases "fresh (p_target c) (Camera_id c)")
  case True
  with assms show ?thesis by (simp add: target_fresh cache_ok_def)
next
  case False
  then show ?thesis by (rule target_stale)
qed

lemma view_cached:
  assumes t: "cache_ok (p_target c) (Camera_id c) (Vec3_add (world_position c) (world_forward c))"
    and v: "cache_ok (p_view c) (Camera_id c)
              (Mat4_lookAt (world_position c) (Vec3_add (world_position c) (world_forward c))
                 (world_up c))"
  shows "fst (Camera_view c) =
           Mat4_lookAt (world_position c) (Vec3_add (world_position c) (world_forward c))
             (world_up c)"
proof (cases "fresh (p_view c) (Camera_id c)")
  case True
  with v show ?thesis by (simp add: view_fresh cache_ok_def)
next
  case False
  then show ?thesis by (simp add: view_stale target_cached [OF t])
qed

text \<open>
  C3. The \<^verbatim>\<open>target\<close> getter returns the world position plus the world forward vector,
  and the \<^verbatim>\<open>view\<close> getter returns the look-at matrix of the world position, that target
  and the world up vector. Again the getters answer from their components, and the
  statement is about components that are missing, out of date, or up to date with the
  values of the current world matrix.
\<close>

theorem Camera_view_lookAt:
  "(cache_ok (p_target c) (Camera_id c) (Vec3_add (world_position c) (world_forward c)) \<longrightarrow>
      fst (Camera_target c) = Vec3_add (world_position c) (world_forward c)) \<and>
   (cache_ok (p_target c) (Camera_id c) (Vec3_add (world_position c) (world_forward c)) \<and>
    cache_ok (p_view c) (Camera_id c)
      (Mat4_lookAt (world_position c) (Vec3_add (world_position c) (world_forward c))
         (world_up c)) \<longrightarrow>
      fst (Camera_view c) =
        Mat4_lookAt (world_position c) (Vec3_add (world_position c) (world_forward c))
          (world_up c))"
  using target_cached [of c] view_cached [of c] by blast

text \<open>
  The example camera stands at \<open>(0, 0, 5)\<close> and looks at \<open>(0, 0, 4)\<close>: its view matrix
  moves the world by \<open>-5\<close> along \<open>z\<close>.
\<close>

theorem Camera_view_lookAt_witness:
  "cache_ok (p_target example_camera) (Camera_id example_camera) [0, 0, 4] \<and>
   cache_ok (p_view example_camera) (Camera_id example_camera)
     [1, 0, 0, 0,  0, 1, 0, 0,  0, 0, 1, 0,  0, 0, - 5, 1] \<and>
   fst (Camera_target example_camera) = [0, 0, 4] \<and>
   fst (Camera_view example_camera) = [1, 0, 0, 0,  0, 1, 0, 0,  0, 0, 1, 0,  0, 0, - 5, 1]"
proof -
  have ok: "cache_ok (p_target example_camera) (Camera_id example_camera) t"
    "cache_ok (p_view example_camera) (Camera_id example_camera) v" for t v
    by (simp_all add: cache_ok_def fresh_def example_camera_simps)
  have add: "Vec3_add [0, 0, 5] [0, 0, - 1] = [0, 0, 4]"
    by (simp add: Vec3_add_def)
  show ?thesis
    using Camera_view_lookAt [of example_camera] ok
    by (simp add: example_world add example_lookAt)
qed

text \<open>
  Transforming a vector by the product \<open>a \<cdot> b\<close> is transforming it by \<open>b\<close>, then by \<open>a\<close>.
\<close>

lemma multiply_transform:
  "Vec4_transformMat4 v (Mat4_multiply a b) = Vec4_transformMat4 (Vec4_transformMat4 v b) a"
  by (simp add: Vec4_transformMat4_def Mat4_multiply_def Mat4_dot_def Let_def algebra_simps
      del: add_2_eq_Suc' add_2_eq_Suc)

lemma viewProjection_cached:
  assumes "cache_ok (p_viewProjection c) (Camera_id c)
             (Mat4_multiply (fst (Camera_projection c)) (fst (Camera_view c)))"
  shows "fst (Camera_viewProjection c) =
           Mat4_multiply (fst (Camera_projection c)) (fst (Camera_view c))"
proof (cases "fresh (p_viewProjection c) (Camera_id c)")
  case True
  with assms show ?thesis by (simp add: viewProjection_fresh cache_ok_def)
next
  case False
  then show ?thesis by (rule viewProjection_stale)
qed

text \<open>
  C4. The \<^verbatim>\<open>viewProjection\<close> getter returns the product of the matrix that the
  \<^verbatim>\<open>projection\<close> getter returns and the matrix that the \<^verbatim>\<open>view\<close> getter returns, in that
  order: it transforms a vector by the view matrix first and by the projection matrix
  second. The statement is about a component that is missing, out of date, or up to date
  with that product.
\<close>

theorem Camera_viewProjection_product:
  "cache_ok (p_viewProjection c) (Camera_id c)
     (Mat4_multiply (fst (Camera_projection c)) (fst (Camera_view c))) \<Longrightarrow>
   fst (Camera_viewProjection c) =
     Mat4_multiply (fst (Camera_projection c)) (fst (Camera_view c)) \<and>
   (\<forall>v. Vec4_transformMat4 v (fst (Camera_viewProjection c)) =
      Vec4_transformMat4 (Vec4_transformMat4 v (fst (Camera_view c))) (fst (Camera_projection c)))"
  using viewProjection_cached [of c] by (simp add: multiply_transform)

theorem Camera_viewProjection_product_witness:
  "cache_ok (p_viewProjection example_camera) (Camera_id example_camera)
     (Mat4_multiply (fst (Camera_projection example_camera)) (fst (Camera_view example_camera))) \<and>
   fst (Camera_viewProjection example_camera) =
     Mat4_multiply (Mat4_perspective (60 * (pi / 180)) (800 / 600) (1 / 10) 1000)
       [1, 0, 0, 0,  0, 1, 0, 0,  0, 0, 1, 0,  0, 0, - 5, 1]"
proof -
  have ok: "cache_ok (p_viewProjection example_camera) (Camera_id example_camera) m" for m
    by (simp add: cache_ok_def fresh_def example_camera_simps)
  have p: "fst (Camera_projection example_camera) =
             Mat4_perspective (60 * (pi / 180)) (800 / 600) (1 / 10) 1000"
    using projection_stale [of example_camera]
    by (simp add: fresh_def example_camera_simps example_renderer_def js_or_def)
  have t: "fst (Camera_target example_camera) = [0, 0, 4]"
    using target_stale [of example_camera]
    by (simp add: fresh_def example_camera_simps example_world Vec3_add_def)
  have v: "fst (Camera_view example_camera) = [1, 0, 0, 0,  0, 1, 0, 0,  0, 0, 1, 0,  0, 0, - 5, 1]"
    using view_stale [of example_camera]
    by (simp add: fresh_def example_camera_simps example_world t example_lookAt)
  show ?thesis
    using Camera_viewProjection_product [of example_camera] ok by (simp add: p v)
qed

section \<open>The inverse of a matrix\<close>

text \<open>
  \<^verbatim>\<open>Mat4.invert\<close>, as modelled, returns a right inverse: the product of a matrix and the
  matrix returned is the identity, and transforming by the one after the other gives the
  vector back.
\<close>

lemma list16:
  "length (a :: 'a list) = 16 \<Longrightarrow>
   \<exists>a0 a1 a2 a3 a4 a5 a6 a7 a8 a9 a10 a11 a12 a13 a14 a15.
     a = [a0, a1, a2, a3, a4, a5, a6, a7, a8, a9, a10, a11, a12, a13, a14, a15]"
  by (auto simp: eval_nat_numeral length_Suc_conv)

lemma multiply_adjugate_explicit:
  "Mat4_multiply [a0, a1, a2, a3, a4, a5, a6, a7, a8, a9, a10, a11, a12, a13, a14, a15]
     (Mat4_adjugate [a0, a1, a2, a3, a4, a5, a6, a7, a8, a9, a10, a11, a12, a13, a14, a15]) =
   map (\<lambda>v. v * Mat4_determinant [a0, a1, a2, a3, a4, a5, a6, a7, a8, a9, a10, a11, a12, a13, a14, a15])
     Mat4_identity"
  by (simp add: Mat4_multiply_def Mat4_adjugate_def Mat4_determinant_def Mat4_identity_def
      Mat4_dot_def Let_def algebra_simps)

lemma multiply_adjugate:
  assumes "length a = 16"
  shows "Mat4_multiply a (Mat4_adjugate a) = map (\<lambda>v. v * Mat4_determinant a) Mat4_identity"
proof -
  from list16 [OF assms] obtain a0 a1 a2 a3 a4 a5 a6 a7 a8 a9 a10 a11 a12 a13 a14 a15
    where "a = [a0, a1, a2, a3, a4, a5, a6, a7, a8, a9, a10, a11, a12, a13, a14, a15]"
    by blast
  then show ?thesis by (simp only: multiply_adjugate_explicit)
qed

lemma length_adjugate: "length (Mat4_adjugate a) = 16"
  by (simp add: Mat4_adjugate_def Let_def)

lemma multiply_scale:
  assumes "length b = 16"
  shows "Mat4_multiply a (map (\<lambda>v. v * k) b) = map (\<lambda>v. v * k) (Mat4_multiply a b)"
proof -
  from list16 [OF assms] obtain b0 b1 b2 b3 b4 b5 b6 b7 b8 b9 b10 b11 b12 b13 b14 b15
    where "b = [b0, b1, b2, b3, b4, b5, b6, b7, b8, b9, b10, b11, b12, b13, b14, b15]"
    by blast
  then show ?thesis
    by (simp add: Mat4_multiply_def Mat4_dot_def algebra_simps del: add_2_eq_Suc' add_2_eq_Suc)
qed

lemma invert_right:
  assumes "length a = 16" and "Mat4_invert a = Some b"
  shows "Mat4_multiply a b = Mat4_identity"
proof -
  from assms(2) have det: "Mat4_determinant a \<noteq> 0"
    and b: "b = map (\<lambda>v. v * (1 / Mat4_determinant a)) (Mat4_adjugate a)"
    by (auto simp: Mat4_invert_def Let_def split: if_splits)
  have "Mat4_multiply a b =
          map (\<lambda>v. v * (1 / Mat4_determinant a)) (Mat4_multiply a (Mat4_adjugate a))"
    unfolding b by (rule multiply_scale) (rule length_adjugate)
  also have "\<dots> = Mat4_identity"
    using det by (simp add: multiply_adjugate [OF assms(1)] Mat4_identity_def)
  finally show ?thesis .
qed

lemma transform_identity: "Vec4_transformMat4 [x, y, z, w] Mat4_identity = [x, y, z, w]"
  by (simp add: Vec4_transformMat4_def Mat4_identity_def)

lemma unproject_project:
  assumes "length a = 16" and "Mat4_invert a = Some b"
  shows "Vec4_transformMat4 (Vec4_transformMat4 [x, y, z, w] b) a = [x, y, z, w]"
  by (simp add: multiply_transform [symmetric] invert_right [OF assms] transform_identity)

lemma transform_scale:
  "Vec4_transformMat4 [x * k, y * k, z * k, w * k] m =
     map (\<lambda>v. v * k) (Vec4_transformMat4 [x, y, z, w] m)"
  by (simp add: Vec4_transformMat4_def algebra_simps)

lemma transform4:
  "Vec4_transformMat4 a m =
     [Vec4_transformMat4 a m ! 0, Vec4_transformMat4 a m ! 1,
      Vec4_transformMat4 a m ! 2, Vec4_transformMat4 a m ! 3]"
  by (simp add: Vec4_transformMat4_def Let_def)

section \<open>screenToWorld\<close>

lemma set_far_renderer: "renderer (Camera_set_far v c) = renderer c"
  by (simp add: Camera_set_far_def)

lemma set_far_far: "p_far (Camera_set_far v c) = v"
  by (simp add: Camera_set_far_def)

lemma viewProjection_renderer: "renderer (snd (Camera_viewProjection c)) = renderer c"
  by (auto simp: getter_defs Let_def split: option.splits prod.splits)

lemma viewProjection_far: "p_far (snd (Camera_viewProjection c)) = p_far c"
  by (auto simp: getter_defs Let_def split: option.splits prod.splits)

text \<open>The early return: nothing is returned, the point is not written.\<close>

lemma screenToWorld_singular:
  assumes "Mat4_invert (fst (Camera_viewProjection (Camera_set_far distance c))) = None"
  shows "Camera_screenToWorld x y distance point c =
           (None, point, snd (Camera_viewProjection (Camera_set_far distance c)))"
  using assms by (simp add: Camera_screenToWorld_def Let_def case_prod_beta)

text \<open>The other return: the point is set and returned, and \<^verbatim>\<open>far\<close> is set back.\<close>

lemma screenToWorld_regular:
  assumes "Mat4_invert (fst (Camera_viewProjection (Camera_set_far distance c))) = Some ivp"
  shows "Camera_screenToWorld x y distance point c =
     (let ws = Vec4_transformMat4
                 [x / width (renderer c) * 2 - 1, (y / height (renderer c) * 2 - 1) * - 1, 1, 1] ivp;
          p = ObservablePoint3D_set (ws ! 0 * (1 / ws ! 3)) (ws ! 1 * (1 / ws ! 3))
                (ws ! 2 * (1 / ws ! 3)) point
      in (Some p, p,
          Camera_set_far (Camera_far c) (snd (Camera_viewProjection (Camera_set_far distance c)))))"
  using assms
  by (simp add: Camera_screenToWorld_def Let_def Vec4_set_def viewProjection_renderer
      set_far_renderer Vec4_transformMat4_def case_prod_beta)

text \<open>
  The point computed from the clip-space vector \<open>(cx, cy, 1, 1)\<close> is a point that the
  matrix sends back to a multiple of that vector.
\<close>

lemma screenToWorld_projects_back:
  assumes len: "length vp = 16" and ivp: "Mat4_invert vp = Some ivp"
    and ws: "ws = Vec4_transformMat4 [cx, cy, 1, 1] ivp" and nz: "ws ! 3 \<noteq> 0"
  shows "Vec4_transformMat4
           [ws ! 0 * (1 / ws ! 3), ws ! 1 * (1 / ws ! 3), ws ! 2 * (1 / ws ! 3), 1] vp =
         [cx * (1 / ws ! 3), cy * (1 / ws ! 3), 1 / ws ! 3, 1 / ws ! 3]"
proof -
  let ?k = "1 / ws ! 3"
  have one: "1 = ws ! 3 * ?k" using nz by simp
  have w4: "[ws ! 0, ws ! 1, ws ! 2, ws ! 3] = ws"
    unfolding ws by (rule transform4 [symmetric])
  have "Vec4_transformMat4 [ws ! 0 * ?k, ws ! 1 * ?k, ws ! 2 * ?k, ws ! 3 * ?k] vp =
          map (\<lambda>v. v * ?k) (Vec4_transformMat4 [ws ! 0, ws ! 1, ws ! 2, ws ! 3] vp)"
    by (rule transform_scale)
  also have "\<dots> = map (\<lambda>v. v * ?k) [cx, cy, 1, 1]"
    unfolding w4 unfolding ws by (simp only: unproject_project [OF len ivp])
  finally show ?thesis using one by simp
qed

text \<open>The example camera, with \<^verbatim>\<open>far\<close> set to 3 and to 0.\<close>

lemma example_far_simps:
  "p_projection (Camera_set_far d example_camera) = None"
  "p_view (Camera_set_far d example_camera) = None"
  "p_viewProjection (Camera_set_far d example_camera) = None"
  "p_target (Camera_set_far d example_camera) = None"
  "p_fieldOfView (Camera_set_far d example_camera) = 60"
  "p_near (Camera_set_far d example_camera) = 1 / 10"
  "p_aspect (Camera_set_far d example_camera) = None"
  "renderer (Camera_set_far d example_camera) = example_renderer"
  "world_position (Camera_set_far d example_camera) = [0, 0, 5]"
  "world_forward (Camera_set_far d example_camera) = [0, 0, - 1]"
  "world_up (Camera_set_far d example_camera) = [0, 1, 0]"
  by (simp_all add: Camera_set_far_def example_camera_simps world_position_def world_forward_def
     world_up_def example_transform_def)

lemma example_far_view:
  "fst (Camera_view (Camera_set_far d example_camera)) =
     [1, 0, 0, 0,  0, 1, 0, 0,  0, 0, 1, 0,  0, 0, - 5, 1]"
proof -
  have t: "fst (Camera_target (Camera_set_far d example_camera)) = [0, 0, 4]"
    using target_stale [of "Camera_set_far d example_camera"]
    by (simp add: fresh_def example_far_simps Vec3_add_def)
  show ?thesis
    using view_stale [of "Camera_set_far d example_camera"]
    by (simp add: fresh_def example_far_simps t example_lookAt)
qed

lemma far3_viewProjection:
  "fst (Camera_viewProjection (Camera_set_far 3 example_camera)) =
     [3 * sqrt 3 / 4, 0, 0, 0,  0, sqrt 3, 0, 0,  0, 0, - (31 / 29), - 1,  0, 0, 149 / 29, 5]"
proof -
  let ?c = "Camera_set_far 3 example_camera"
  have p: "fst (Camera_projection ?c) =
     [3 * sqrt 3 / 4, 0, 0, 0,  0, sqrt 3, 0, 0,  0, 0, - (31 / 29), - 1,  0, 0, - (6 / 29), 0]"
    using projection_stale [of ?c]
    by (simp add: fresh_def example_far_simps set_far_far js_or_def example_renderer_def
        Mat4_perspective_def Let_def tan_30)
  show ?thesis
    using viewProjection_stale [of ?c]
    by (simp add: fresh_def example_far_simps p example_far_view Mat4_multiply_def Mat4_dot_def)
qed

lemma far3_invert:
  "Mat4_invert
     [3 * sqrt 3 / 4, 0, 0, 0,  0, sqrt 3, 0, 0,  0, 0, - (31 / 29), - 1,  0, 0, 149 / 29, 5] =
   Some [4 * sqrt 3 / 9, 0, 0, 0,  0, sqrt 3 / 3, 0, 0,  0, 0, - (145 / 6), - (29 / 6),
         0, 0, 149 / 6, 31 / 6]"
  by (simp add: Mat4_invert_def Mat4_determinant_def Mat4_adjugate_def Let_def)

lemma far0_viewProjection:
  "fst (Camera_viewProjection (Camera_set_far 0 example_camera)) =
     [3 * sqrt 3 / 4, 0, 0, 0,  0, sqrt 3, 0, 0,  0, 0, 1, - 1,  0, 0, - 5, 5]"
proof -
  let ?c = "Camera_set_far 0 example_camera"
  have p: "fst (Camera_projection ?c) =
     [3 * sqrt 3 / 4, 0, 0, 0,  0, sqrt 3, 0, 0,  0, 0, 1, - 1,  0, 0, 0, 0]"
    using projection_stale [of ?c]
    by (simp add: fresh_def example_far_simps set_far_far js_or_def example_renderer_def
        Mat4_perspective_def Let_def tan_30)
  show ?thesis
    using viewProjection_stale [of ?c]
    by (simp add: fresh_def example_far_simps p example_far_view Mat4_multiply_def Mat4_dot_def)
qed

lemma far0_singular:
  "Mat4_invert (fst (Camera_viewProjection (Camera_set_far 0 example_camera))) = None"
  by (simp add: far0_viewProjection Mat4_invert_def Mat4_determinant_def Let_def)

text \<open>
  C5. \<^verbatim>\<open>screenToWorld\<close> inverts the view-projection matrix that the camera has while
  \<^verbatim>\<open>far\<close> is the distance. When the inversion fails, the method returns nothing and
  leaves the point as it was. Otherwise it returns the point, set to the first three
  coordinates of the clip-space vector
  \<open>(x / width * 2 - 1, - (y / height * 2 - 1), 1, 1)\<close> transformed by the inverse and
  divided by the fourth. These are the world coordinates at that screen position and
  distance: where the view-projection matrix has its 16 elements and the fourth coordinate
  is not 0, the matrix sends the point returned to a multiple of that clip-space vector,
  which is the screen position \<open>(x, y)\<close> on the far plane, and the far plane is at the
  distance.
\<close>

theorem Camera_screenToWorld_result:
  "(Mat4_invert (fst (Camera_viewProjection (Camera_set_far distance c))) = None \<longrightarrow>
      fst (Camera_screenToWorld x y distance point c) = None \<and>
      fst (snd (Camera_screenToWorld x y distance point c)) = point) \<and>
   (Mat4_invert (fst (Camera_viewProjection (Camera_set_far distance c))) = Some ivp \<longrightarrow>
      (let cx = x / width (renderer c) * 2 - 1;
           cy = (y / height (renderer c) * 2 - 1) * - 1;
           ws = Vec4_transformMat4 [cx, cy, 1, 1] ivp;
           p = ObservablePoint3D_set (ws ! 0 * (1 / ws ! 3)) (ws ! 1 * (1 / ws ! 3))
                 (ws ! 2 * (1 / ws ! 3)) point
       in fst (Camera_screenToWorld x y distance point c) = Some p \<and>
          fst (snd (Camera_screenToWorld x y distance point c)) = p \<and>
          (length (fst (Camera_viewProjection (Camera_set_far distance c))) = 16 \<and>
           ws ! 3 \<noteq> 0 \<longrightarrow>
             Vec4_transformMat4 [obs_x p, obs_y p, obs_z p, 1]
               (fst (Camera_viewProjection (Camera_set_far distance c))) =
             [cx * (1 / ws ! 3), cy * (1 / ws ! 3), 1 / ws ! 3, 1 / ws ! 3])))"
proof -
  let ?vp = "fst (Camera_viewProjection (Camera_set_far distance c))"
  let ?cx = "x / width (renderer c) * 2 - 1"
  let ?cy = "(y / height (renderer c) * 2 - 1) * - 1"
  let ?ws = "Vec4_transformMat4 [?cx, ?cy, 1, 1] ivp"
  have proj:
    "Vec4_transformMat4
       [?ws ! 0 * (1 / ?ws ! 3), ?ws ! 1 * (1 / ?ws ! 3), ?ws ! 2 * (1 / ?ws ! 3), 1] ?vp =
     [?cx * (1 / ?ws ! 3), ?cy * (1 / ?ws ! 3), 1 / ?ws ! 3, 1 / ?ws ! 3]"
    if i: "Mat4_invert ?vp = Some ivp" and l: "length ?vp = 16" and nz: "?ws ! 3 \<noteq> 0"
    using screenToWorld_projects_back [OF l i refl nz] .
  show ?thesis
    using screenToWorld_singular [of distance c x y point]
      screenToWorld_regular [of distance c ivp x y point] proj
    by (simp add: Let_def ObservablePoint3D_set_def)
qed

text \<open>
  The example camera and the centre of its screen, at the distance 3: the point returned
  is \<open>(0, 0, 2)\<close>, three units in front of the camera.
\<close>

theorem Camera_screenToWorld_result_witness:
  "Mat4_invert (fst (Camera_viewProjection (Camera_set_far 3 example_camera))) =
     Some [4 * sqrt 3 / 9, 0, 0, 0,  0, sqrt 3 / 3, 0, 0,  0, 0, - (145 / 6), - (29 / 6),
           0, 0, 149 / 6, 31 / 6] \<and>
   Camera_screenToWorld 400 300 3 ObservablePoint3D_new example_camera =
     (Some \<lparr>obs_x = 0, obs_y = 0, obs_z = 2\<rparr>, \<lparr>obs_x = 0, obs_y = 0, obs_z = 2\<rparr>,
      snd (snd (Camera_screenToWorld 400 300 3 ObservablePoint3D_new example_camera))) \<and>
   Vec4_transformMat4 [0, 0, 2, 1]
     (fst (Camera_viewProjection (Camera_set_far 3 example_camera))) = [0, 0, 3, 3]"
proof -
  let ?vp = "fst (Camera_viewProjection (Camera_set_far 3 example_camera))"
  let ?ivp = "[4 * sqrt 3 / 9, 0, 0, 0,  0, sqrt 3 / 3, 0, 0,  0, 0, - (145 / 6), - (29 / 6),
           0, 0, 149 / 6, 31 / 6] :: real list"
  have i: "Mat4_invert ?vp = Some ?ivp"
    by (simp only: far3_viewProjection far3_invert)
  have len: "length ?vp = 16"
    by (simp add: far3_viewProjection)
  have ws: "Vec4_transformMat4 [400 / width (renderer example_camera) * 2 - 1,
              (300 / height (renderer example_camera) * 2 - 1) * - 1, 1, 1] ?ivp =
            [0, 0, 2 / 3, 1 / 3]"
    by (simp add: example_camera_simps example_renderer_def Vec4_transformMat4_def)
  have r: "width (renderer example_camera) = 800" "height (renderer example_camera) = 600"
    by (simp_all add: example_camera_simps example_renderer_def)
  show ?thesis
    using Camera_screenToWorld_result [of 3 example_camera 400 300 ObservablePoint3D_new ?ivp]
      i len
    apply (simp only: Let_def ws)
    apply (simp add: ObservablePoint3D_set_def ObservablePoint3D_new_def r)
    apply (cases "Camera_screenToWorld 400 300 3 \<lparr>obs_x = 0, obs_y = 0, obs_z = 0\<rparr> example_camera")
    apply simp
    done
qed

text \<open>
  What \<^verbatim>\<open>screenToWorld\<close> leaves in \<^verbatim>\<open>far\<close>: the old value after the regular return, the
  distance after the early return.
\<close>

lemma screenToWorld_far:
  "p_far (snd (snd (Camera_screenToWorld x y distance point c))) =
     (if Mat4_invert (fst (Camera_viewProjection (Camera_set_far distance c))) = None
      then distance else p_far c)"
proof (cases "Mat4_invert (fst (Camera_viewProjection (Camera_set_far distance c)))")
  case None
  then show ?thesis
    by (simp add: screenToWorld_singular viewProjection_far set_far_far)
next
  case (Some ivp)
  then show ?thesis
    by (simp add: screenToWorld_regular Let_def set_far_far Camera_far_def)
qed

text \<open>
  C7 fails on the early return. The example camera has \<^verbatim>\<open>far = 1000\<close>; with the distance 0
  its view-projection matrix is singular, \<^verbatim>\<open>screenToWorld\<close> returns nothing, and \<^verbatim>\<open>far\<close>
  is 0 afterwards.
\<close>

theorem Camera_screenToWorld_leaves_far_changed:
  "Camera_far example_camera = 1000 \<and>
   fst (Camera_screenToWorld 400 300 0 ObservablePoint3D_new example_camera) = None \<and>
   Camera_far (snd (snd (Camera_screenToWorld 400 300 0 ObservablePoint3D_new example_camera))) = 0"
  by (simp add: Camera_far_def example_camera_simps far0_singular screenToWorld_singular
      viewProjection_far set_far_far)

section \<open>worldToScreen\<close>

lemma projection_after_view:
  "fst (Camera_projection (snd (Camera_view c))) = fst (Camera_projection c)"
  by (auto simp: getter_defs Let_def split: option.splits prod.splits)

lemma renderer_after_getters:
  "renderer (snd (Camera_projection c)) = renderer c" "renderer (snd (Camera_view c)) = renderer c"
  by (auto simp: getter_defs Let_def split: option.splits prod.splits)

text \<open>
  C6. \<^verbatim>\<open>worldToScreen\<close> transforms \<open>(x, y, z, 1)\<close> by the view matrix, then by the
  projection matrix, divides by the fourth coordinate when that is not 0, and returns the
  point set to \<open>((ndcX + 1) / 2 * width, height - (ndcY + 1) / 2 * height)\<close>.
\<close>

theorem Camera_worldToScreen_formula:
  "fst (Camera_worldToScreen x y z point c) =
     (let clipSpace = Vec4_transformMat4 (Vec4_transformMat4 [x, y, z, 1] (fst (Camera_view c)))
                        (fst (Camera_projection c));
          w = clipSpace ! 3;
          ndcX = (if w \<noteq> 0 then clipSpace ! 0 / w else clipSpace ! 0);
          ndcY = (if w \<noteq> 0 then clipSpace ! 1 / w else clipSpace ! 1)
      in Point_set ((ndcX + 1) / 2 * width (renderer c))
           (height (renderer c) - (ndcY + 1) / 2 * height (renderer c)) point)"
proof -
  obtain a b d e where cl:
    "Vec4_transformMat4 (Vec4_transformMat4 [x, y, z, 1] (fst (Camera_view c)))
       (fst (Camera_projection c)) = [a, b, d, e]"
    by (rule that [OF transform4])
  show ?thesis
    by (simp add: Camera_worldToScreen_def case_prod_beta projection_after_view
        renderer_after_getters Vec4_set_def cl Let_def)
qed

text \<open>
  The example camera: the point \<open>(0, 0, 2)\<close> straight ahead is at the centre of the
  screen, and \<open>(1, 1, 2)\<close> is to the right of it and above it.
\<close>

theorem Camera_worldToScreen_formula_witness:
  "fst (Camera_worldToScreen 0 0 2 Point_new example_camera) = \<lparr>pt_x = 400, pt_y = 300\<rparr> \<and>
   fst (Camera_worldToScreen 1 1 2 Point_new example_camera) =
     \<lparr>pt_x = 400 + 100 * sqrt 3, pt_y = 300 - 100 * sqrt 3\<rparr>"
proof -
  have p: "fst (Camera_projection example_camera) =
             Mat4_perspective (60 * (pi / 180)) (800 / 600) (1 / 10) 1000"
    using projection_stale [of example_camera]
    by (simp add: fresh_def example_camera_simps example_renderer_def js_or_def)
  have t: "fst (Camera_target example_camera) = [0, 0, 4]"
    using target_stale [of example_camera]
    by (simp add: fresh_def example_camera_simps example_world Vec3_add_def)
  have v: "fst (Camera_view example_camera) = [1, 0, 0, 0,  0, 1, 0, 0,  0, 0, 1, 0,  0, 0, - 5, 1]"
    using view_stale [of example_camera]
    by (simp add: fresh_def example_camera_simps example_world t example_lookAt)
  show ?thesis
    using Camera_worldToScreen_formula [of 0 0 2 Point_new example_camera]
      Camera_worldToScreen_formula [of 1 1 2 Point_new example_camera]
    by (simp add: p v Let_def Vec4_transformMat4_def Mat4_perspective_def tan_30
        example_camera_simps example_renderer_def Point_set_def Point_new_def field_simps)
qed

section \<open>The prerender callback\<close>

lemma prerender_counter:
  "p_id (Camera_prerender upd c) = (if truthy (p_aspect c) then p_id c else p_id c + 1)"
  by (simp add: Camera_prerender_def Let_def)

lemma prerender_transform:
  "transform (Camera_prerender upd c) =
     (if parent c = None then upd (transform c) else transform c)"
  by (simp add: Camera_prerender_def Let_def)

lemma prerender_nothing:
  "truthy (p_aspect c) \<Longrightarrow> parent c \<noteq> None \<Longrightarrow> Camera_prerender upd c = c"
  by (auto simp: Camera_prerender_def Let_def)

lemma prerender_frame:
  "p_projection (Camera_prerender upd c) = p_projection c"
  "p_view (Camera_prerender upd c) = p_view c"
  "p_viewProjection (Camera_prerender upd c) = p_viewProjection c"
  "p_target (Camera_prerender upd c) = p_target c"
  "p_fieldOfView (Camera_prerender upd c) = p_fieldOfView c"
  "p_near (Camera_prerender upd c) = p_near c"
  "p_far (Camera_prerender upd c) = p_far c"
  "p_aspect (Camera_prerender upd c) = p_aspect c"
  "renderer (Camera_prerender upd c) = renderer c"
  "parent (Camera_prerender upd c) = parent c"
  by (simp_all add: Camera_prerender_def Let_def)

lemma prerender_invalidates:
  assumes "\<not> truthy (p_aspect c)" and "worldID (transform c) \<le> worldID (upd (transform c))"
    and "fresh m (Camera_id c)"
  shows "\<not> fresh m (Camera_id (Camera_prerender upd c))"
  using assms
  by (auto simp: fresh_def Camera_id_def prerender_counter prerender_transform split: option.splits)

text \<open>
  C8, as the code has it. The callback increments the dirty counter if and only if the
  aspect is not set or is 0 (the test is \<^verbatim>\<open>!this._aspect\<close>), and leaves the counter alone
  if and only if a non-zero aspect is set. It replaces the transform by the host's update
  of it when the camera has no parent, and keeps the transform when it has one. With a
  non-zero aspect and a parent it changes nothing. When it increments the counter and the
  host's update does not lower \<^verbatim>\<open>_worldID\<close>, a projection component that was up to date
  is out of date afterwards, so the projection matrix is recomputed at its next read. No
  other field of the camera changes.
\<close>

theorem Camera_prerender_effect:
  "(p_id (Camera_prerender upd c) = p_id c + 1) = (p_aspect c = None \<or> p_aspect c = Some 0) \<and>
   (p_id (Camera_prerender upd c) = p_id c) = (\<exists>a. p_aspect c = Some a \<and> a \<noteq> 0) \<and>
   transform (Camera_prerender upd c) =
     (if parent c = None then upd (transform c) else transform c) \<and>
   ((\<exists>a. p_aspect c = Some a \<and> a \<noteq> 0) \<and> parent c \<noteq> None \<longrightarrow> Camera_prerender upd c = c) \<and>
   ((p_aspect c = None \<or> p_aspect c = Some 0) \<and>
    worldID (transform c) \<le> worldID (upd (transform c)) \<and>
    fresh (p_projection c) (Camera_id c) \<longrightarrow>
      \<not> fresh (p_projection (Camera_prerender upd c)) (Camera_id (Camera_prerender upd c))) \<and>
   p_projection (Camera_prerender upd c) = p_projection c \<and>
   p_view (Camera_prerender upd c) = p_view c \<and>
   p_viewProjection (Camera_prerender upd c) = p_viewProjection c \<and>
   p_target (Camera_prerender upd c) = p_target c \<and>
   p_fieldOfView (Camera_prerender upd c) = p_fieldOfView c \<and>
   p_near (Camera_prerender upd c) = p_near c \<and>
   p_far (Camera_prerender upd c) = p_far c \<and>
   p_aspect (Camera_prerender upd c) = p_aspect c \<and>
   renderer (Camera_prerender upd c) = renderer c \<and>
   parent (Camera_prerender upd c) = parent c"
  using prerender_nothing [of c upd] prerender_invalidates [of c upd "p_projection c"]
  by (cases "p_aspect c")
    (auto simp: prerender_counter prerender_transform prerender_frame truthy_def)

text \<open>
  A camera with the aspect 2 and a parent is left as it is; the example camera, with no
  aspect and no parent, gets its counter incremented and its transform updated.
\<close>

theorem Camera_prerender_effect_witness:
  "p_aspect (Camera_set_aspect (Some 2) (example_camera\<lparr>parent := Some 7\<rparr>)) = Some 2 \<and>
   parent (Camera_set_aspect (Some 2) (example_camera\<lparr>parent := Some 7\<rparr>)) \<noteq> None \<and>
   Camera_prerender example_update (Camera_set_aspect (Some 2) (example_camera\<lparr>parent := Some 7\<rparr>)) =
     Camera_set_aspect (Some 2) (example_camera\<lparr>parent := Some 7\<rparr>) \<and>
   p_aspect example_camera = None \<and> parent example_camera = None \<and>
   p_id (Camera_prerender example_update example_camera) = p_id example_camera + 1 \<and>
   transform (Camera_prerender example_update example_camera) = example_update example_transform"
proof -
  let ?c = "Camera_set_aspect (Some 2) (example_camera\<lparr>parent := Some 7\<rparr>)"
  have a: "p_aspect ?c = Some 2" "parent ?c = Some 7"
    by (simp_all add: Camera_set_aspect_def example_camera_simps)
  show ?thesis
    using Camera_prerender_effect [of example_update ?c]
      Camera_prerender_effect [of example_update example_camera]
    by (simp add: a example_camera_simps)
qed

text \<open>
  C8 as the claim words it ("if and only if no explicit aspect ratio is set"; "when an
  aspect is set and a parent exists, the callback changes nothing") fails for a camera
  whose aspect is set to 0 and which has a parent: the callback increments its counter.
\<close>

theorem Camera_prerender_aspect_zero:
  "p_aspect (Camera_set_aspect (Some 0) (example_camera\<lparr>parent := Some 7\<rparr>)) = Some 0 \<and>
   parent (Camera_set_aspect (Some 0) (example_camera\<lparr>parent := Some 7\<rparr>)) = Some 7 \<and>
   p_id (Camera_prerender example_update
          (Camera_set_aspect (Some 0) (example_camera\<lparr>parent := Some 7\<rparr>))) =
     p_id (Camera_set_aspect (Some 0) (example_camera\<lparr>parent := Some 7\<rparr>)) + 1 \<and>
   Camera_prerender example_update (Camera_set_aspect (Some 0) (example_camera\<lparr>parent := Some 7\<rparr>)) \<noteq>
     Camera_set_aspect (Some 0) (example_camera\<lparr>parent := Some 7\<rparr>)"
proof -
  let ?c = "Camera_set_aspect (Some 0) (example_camera\<lparr>parent := Some 7\<rparr>)"
  have a: "p_aspect ?c = Some 0" "parent ?c = Some 7"
    by (simp_all add: Camera_set_aspect_def example_camera_simps)
  have n: "p_id (Camera_prerender example_update ?c) = p_id ?c + 1"
    by (simp add: prerender_counter a truthy_def)
  then have "Camera_prerender example_update ?c \<noteq> ?c"
    by (metis n_not_Suc_n Suc_eq_plus1)
  with a n show ?thesis by simp
qed

section \<open>The constructor and \<^verbatim>\<open>Camera.main\<close>\<close>

lemma constructor_ref: "fst (Camera_constructor b r w) = length (heap w)"
  by (simp add: Camera_constructor_def Let_def)

lemma constructor_main:
  "Camera_main (snd (Camera_constructor b r w)) =
     (case Camera_main w of None \<Rightarrow> Some (length (heap w)) | Some m \<Rightarrow> Some m)"
  by (simp add: Camera_constructor_def Let_def split: option.splits)

lemma constructor_length: "length (heap (snd (Camera_constructor b r w))) = Suc (length (heap w))"
  by (simp add: Camera_constructor_def Let_def)

lemma constructor_heap_old:
  "i < length (heap w) \<Longrightarrow> heap (snd (Camera_constructor b r w)) ! i = heap w ! i"
  by (simp add: Camera_constructor_def Let_def nth_append)

lemma construct_all_main:
  "Camera_main w = Some m \<Longrightarrow> Camera_main (construct_all args w) = Some m"
  by (induction args w rule: construct_all.induct) (simp_all add: constructor_main)

lemma construct_all_heap_old:
  "i < length (heap w) \<Longrightarrow> heap (construct_all args w) ! i = heap w ! i"
proof (induction args w rule: construct_all.induct)
  case (1 w)
  then show ?case by simp
next
  case (2 base r rest w)
  have "i < length (heap (snd (Camera_constructor base r w)))"
    using "2.prems" by (simp add: constructor_length)
  then show ?case
    using "2.IH" "2.prems" by (simp add: constructor_heap_old)
qed

text \<open>
  C10. A construction sets \<^verbatim>\<open>Camera.main\<close> to the new camera when the field is
  undefined and leaves it alone otherwise; once the field refers to a camera, no sequence
  of constructions replaces it. Starting with no camera, after any non-empty sequence of
  constructions \<^verbatim>\<open>Camera.main\<close> is the reference that the first construction returned,
  and the object behind it is the camera that the first construction built.
\<close>

theorem Camera_main_first_constructed:
  "Camera_main (snd (Camera_constructor b r w)) =
     (case Camera_main w of
        None \<Rightarrow> Some (fst (Camera_constructor b r w))
      | Some m \<Rightarrow> Some m) \<and>
   (Camera_main w = Some m \<longrightarrow> Camera_main (construct_all args w) = Some m) \<and>
   Camera_main (construct_all ((b, r) # args) World_empty) =
     Some (fst (Camera_constructor b r World_empty)) \<and>
   heap (construct_all ((b, r) # args) World_empty) ! fst (Camera_constructor b r World_empty) =
     heap (snd (Camera_constructor b r World_empty)) ! fst (Camera_constructor b r World_empty)"
proof -
  have one: "Camera_main (snd (Camera_constructor b r World_empty)) = Some 0"
    by (simp add: constructor_main World_empty_def)
  have len: "0 < length (heap (snd (Camera_constructor b r World_empty)))"
    by (simp add: constructor_length)
  show ?thesis
    using construct_all_main [OF one, of args] construct_all_heap_old [OF len, of args]
      construct_all_main [of w m args]
    by (simp add: constructor_main constructor_ref World_empty_def split: option.splits)
qed

text \<open>Three cameras, on two renderers: \<^verbatim>\<open>Camera.main\<close> is the first.\<close>

theorem Camera_main_first_constructed_witness:
  "Camera_main (snd (Camera_constructor example_base example_renderer World_empty)) = Some 0 \<and>
   Camera_main
     (construct_all [(example_base, \<lparr>width = 1, height = 1\<rparr>), (example_base, example_renderer)]
        (snd (Camera_constructor example_base example_renderer World_empty))) = Some 0 \<and>
   Camera_main
     (construct_all [(example_base, example_renderer), (example_base, \<lparr>width = 1, height = 1\<rparr>)]
        World_empty) = Some 0 \<and>
   renderer
     (heap (construct_all [(example_base, example_renderer), (example_base, \<lparr>width = 1, height = 1\<rparr>)]
        World_empty) ! 0) = example_renderer"
proof -
  let ?w = "snd (Camera_constructor example_base example_renderer World_empty)"
  have m: "Camera_main ?w = Some 0"
    by (simp add: Camera_constructor_def World_empty_def Let_def)
  have r: "fst (Camera_constructor example_base example_renderer World_empty) = 0"
    by (simp add: Camera_constructor_def World_empty_def Let_def)
  have h: "renderer (heap ?w ! 0) = example_renderer"
    by (simp add: Camera_constructor_def World_empty_def Let_def Camera_fields_def)
  show ?thesis
    using Camera_main_first_constructed
      [of example_base example_renderer ?w 0
          "[(example_base, \<lparr>width = 1, height = 1\<rparr>), (example_base, example_renderer)]"]
      Camera_main_first_constructed
      [of example_base example_renderer World_empty 0
          "[(example_base, \<lparr>width = 1, height = 1\<rparr>)]"]
      m
    by (simp add: r h)
qed

section \<open>Rendering a mesh\<close>

text \<open>
  The calls of \<^verbatim>\<open>render\<close>: the attributes, when the geometry does not have this shader's
  yet, then the shader, the state, the geometry and the draw call.
\<close>

lemma render_calls:
  "snd (MeshShader_render sh mesh st dm) =
     (if hasShaderAttributes sh (geometry mesh) then []
      else MeshShader_addGeometryAttributes sh (geometry mesh)) @
     [shader_bind (MeshShader_name sh) False, state_set (state_or st (state sh)),
      geometry_bind (MeshShader_name sh), geometry_draw (drawMode_or dm (drawMode sh))]"
  by (simp add: MeshShader_render_def addShaderAttributes_def case_prod_beta)

text \<open>After \<^verbatim>\<open>render\<close> the geometry has the shader's attributes.\<close>

lemma render_compatible:
  "hasShaderAttributes sh (geometry (fst (MeshShader_render sh mesh st dm)))"
  by (simp add: MeshShader_render_def addShaderAttributes_def hasShaderAttributes_def
      case_prod_beta)

text \<open>A second \<^verbatim>\<open>render\<close> of the mesh adds no attribute.\<close>

lemma render_again:
  "snd (MeshShader_render sh (fst (MeshShader_render sh mesh st dm)) st' dm') =
     [shader_bind (MeshShader_name sh) False, state_set (state_or st' (state sh)),
      geometry_bind (MeshShader_name sh), geometry_draw (drawMode_or dm' (drawMode sh))]"
  by (simp add: render_calls render_compatible)

text \<open>A draw mode other than \<^verbatim>\<open>POINTS\<close> is the one drawn with.\<close>

lemma render_draw_mode:
  "DRAW_MODES_value m \<noteq> 0 \<Longrightarrow>
   last (snd (MeshShader_render sh mesh st (Some m))) = geometry_draw m"
  by (simp add: render_calls drawMode_or_def)

text \<open>
  C9 fails on the draw mode. \<^verbatim>\<open>render\<close> called with the draw mode \<^verbatim>\<open>POINTS\<close>, which is
  the number 0, takes \<^verbatim>\<open>drawMode || this.drawMode\<close> to be the shader's default: the draw
  call is made with \<^verbatim>\<open>TRIANGLES\<close>.
\<close>

theorem MeshShader_render_POINTS_draws_TRIANGLES:
  "last (snd (MeshShader_render MeshShader_new mesh st (Some POINTS))) = geometry_draw TRIANGLES"
  by (simp add: render_calls drawMode_or_def MeshShader_new_def)

section \<open>The perspective and look-at matrices\<close>

text \<open>
  The modelled matrices are the textbook's. The perspective matrix sends the near plane
  to the depth \<open>-1\<close> and the far plane to the depth \<open>1\<close> after the division by the
  fourth coordinate, and scales \<open>x\<close> and \<open>y\<close> by the cotangent of half the field of view
  (and \<open>x\<close> by the aspect ratio). The look-at matrix sends the eye to the origin and the
  point looked at onto the negative \<open>z\<close> axis, at its distance from the eye.
\<close>

lemma perspective_nf:
  fixes near far z :: real
  assumes "near \<noteq> far"
  shows "(far + near) * (1 / (near - far)) * z + 2 * far * near * (1 / (near - far)) * 1 =
         ((far + near) * z + 2 * far * near) / (near - far)"
  by algebra

lemma perspective_near_plane:
  assumes "near \<noteq> far"
  shows "Vec4_transformMat4 [x, y, - near, 1] (Mat4_perspective fovy aspect near far) =
         [x / tan (fovy / 2) / aspect, y / tan (fovy / 2), - near, near]"
proof -
  have "((far + near) * (- near) + 2 * far * near) / (near - far) = - near"
    using assms by (simp add: field_simps)
  then show ?thesis
    by (simp add: Vec4_transformMat4_def Mat4_perspective_def Let_def
        perspective_nf [OF assms, of "- near", simplified])
qed

lemma perspective_far_plane:
  assumes "near \<noteq> far"
  shows "Vec4_transformMat4 [x, y, - far, 1] (Mat4_perspective fovy aspect near far) =
         [x / tan (fovy / 2) / aspect, y / tan (fovy / 2), far, far]"
proof -
  have "((far + near) * (- far) + 2 * far * near) / (near - far) = far"
    using assms by (simp add: field_simps)
  then show ?thesis
    by (simp add: Vec4_transformMat4_def Mat4_perspective_def Let_def
        perspective_nf [OF assms, of "- far", simplified])
qed

lemma lookAt_eye:
  "Vec4_transformMat4 [e0, e1, e2, 1] (Mat4_lookAt [e0, e1, e2] center upv) = [0, 0, 0, 1]"
  by (simp add: Vec4_transformMat4_def Mat4_lookAt_def Let_def algebra_simps)

lemma squares_pos:
  fixes a b c :: real
  assumes "a \<noteq> 0 \<or> b \<noteq> 0 \<or> c \<noteq> 0"
  shows "0 < a * a + b * b + c * c"
  using assms
  by (meson add_strict_increasing add_strict_increasing2
    not_real_square_gt_zero sum_squares_ge_zero zero_le_square)

lemma lookAt_center:
  assumes "[e0, e1, e2] \<noteq> [c0, c1, c2]"
  shows "Vec4_transformMat4 [c0, c1, c2, 1] (Mat4_lookAt [e0, e1, e2] [c0, c1, c2] upv) ! 2 =
         - Vec3_length (e0 - c0) (e1 - c1) (e2 - c2)"
proof -
  let ?d0 = "e0 - c0" and ?d1 = "e1 - c1" and ?d2 = "e2 - c2"
  let ?l = "Vec3_length ?d0 ?d1 ?d2"
  have pos: "?d0 * ?d0 + ?d1 * ?d1 + ?d2 * ?d2 > 0"
    using assms by (intro squares_pos) auto
  then have l: "?l > 0" by (simp add: Vec3_length_def)
  have sq: "?l * ?l = ?d0 * ?d0 + ?d1 * ?d1 + ?d2 * ?d2"
    using pos by (simp add: Vec3_length_def)
  have "Vec4_transformMat4 [c0, c1, c2, 1] (Mat4_lookAt [e0, e1, e2] [c0, c1, c2] upv) ! 2 =
        - ((?d0 * ?d0 + ?d1 * ?d1 + ?d2 * ?d2) / ?l)"
    by (simp add: Vec4_transformMat4_def Mat4_lookAt_def Let_def algebra_simps
        add_divide_distrib diff_divide_distrib)
  also have "\<dots> = - ?l" using l sq by (simp add: field_simps)
  finally show ?thesis .
qed

section \<open>Coherence is an invariant\<close>

declare id_upd [simp]

lemma expected_upd [simp]:
  "expected_projection (c\<lparr>p_projection := x\<rparr>) = expected_projection c"
  "expected_projection (c\<lparr>p_target := x\<rparr>) = expected_projection c"
  "expected_projection (c\<lparr>p_view := x\<rparr>) = expected_projection c"
  "expected_projection (c\<lparr>p_viewProjection := x\<rparr>) = expected_projection c"
  "expected_target (c\<lparr>p_projection := x\<rparr>) = expected_target c"
  "expected_target (c\<lparr>p_target := x\<rparr>) = expected_target c"
  "expected_target (c\<lparr>p_view := x\<rparr>) = expected_target c"
  "expected_target (c\<lparr>p_viewProjection := x\<rparr>) = expected_target c"
  "expected_view (c\<lparr>p_projection := x\<rparr>) = expected_view c"
  "expected_view (c\<lparr>p_target := x\<rparr>) = expected_view c"
  "expected_view (c\<lparr>p_view := x\<rparr>) = expected_view c"
  "expected_view (c\<lparr>p_viewProjection := x\<rparr>) = expected_view c"
  by (simp_all add: expected_projection_def expected_target_def expected_view_def
      world_position_def world_forward_def world_up_def)

lemma stored_ok [simp]:
  "id_bounded (Some \<lparr>mc_id = Some k, mc_array = a\<rparr>) k"
  "cache_ok (Some \<lparr>mc_id = Some k, mc_array = a\<rparr>) k v = (a = v)"
  "fresh (Some \<lparr>mc_id = Some k, mc_array = a\<rparr>) k"
  "cached_array (Some \<lparr>mc_id = Some k, mc_array = a\<rparr>) = a"
  by (simp_all add: id_bounded_def cache_ok_def fresh_def cached_array_def)

text \<open>What the getters of a coherent camera return.\<close>

lemma projection_value:
  assumes "projection_ok R c" and "renderer_ratio c \<in> R"
  shows "\<exists>ratio\<in>R. fst (Camera_projection c) =
           Mat4_perspective (p_fieldOfView c * (pi / 180)) (js_or (p_aspect c) ratio)
             (p_near c) (p_far c)"
proof (cases "fresh (p_projection c) (Camera_id c)")
  case True
  with assms(1) show ?thesis by (simp add: projection_ok_def projection_fresh)
next
  case False
  then have "fst (Camera_projection c) =
      Mat4_perspective (p_fieldOfView c * (pi / 180)) (js_or (p_aspect c) (renderer_ratio c))
        (p_near c) (p_far c)"
    unfolding renderer_ratio_def by (rule projection_stale)
  with assms(2) show ?thesis by blast
qed

lemma coherent_target_value:
  "coherent R c \<Longrightarrow> fst (Camera_target c) = expected_target c"
  using target_cached [of c] by (simp add: coherent_def expected_target_def)

lemma coherent_view_value:
  "coherent R c \<Longrightarrow> fst (Camera_view c) = expected_view c"
  using view_cached [of c] by (simp add: coherent_def expected_view_def expected_target_def)

lemma coherent_viewProjection_value:
  assumes "coherent R c"
  shows "fst (Camera_viewProjection c) =
           Mat4_multiply (fst (Camera_projection c)) (fst (Camera_view c))"
proof (cases "fresh (p_viewProjection c) (Camera_id c)")
  case True
  with assms have "fresh (p_projection c) (Camera_id c)" "fresh (p_view c) (Camera_id c)"
    "cached_array (p_viewProjection c) =
       Mat4_multiply (cached_array (p_projection c)) (cached_array (p_view c))"
    by (simp_all add: coherent_def viewProjection_ok_def)
  with True show ?thesis by (simp add: viewProjection_fresh projection_fresh view_fresh)
next
  case False
  then show ?thesis by (rule viewProjection_stale)
qed

text \<open>The getters keep a coherent camera coherent.\<close>

lemma coherent_projection:
  assumes "coherent R c" and "renderer_ratio c \<in> R"
  shows "coherent R (snd (Camera_projection c))"
proof -
  from assms have v: "\<exists>ratio\<in>R. fst (Camera_projection c) =
           Mat4_perspective (p_fieldOfView c * (pi / 180)) (js_or (p_aspect c) ratio)
             (p_near c) (p_far c)"
    using projection_value [of R c] by (simp add: coherent_def)
  have k: "fresh (p_projection c) (Camera_id c) \<Longrightarrow>
      fst (Camera_projection c) = cached_array (p_projection c)"
    by (simp add: projection_fresh)
  show ?thesis
    using assms(1) v k
    by (simp add: projection_state) (simp add: coherent_def projection_ok_def viewProjection_ok_def)
qed

lemma coherent_target: "coherent R c \<Longrightarrow> coherent R (snd (Camera_target c))"
  using coherent_target_value [of R c]
  by (simp add: target_state) (simp add: coherent_def projection_ok_def viewProjection_ok_def)

lemma coherent_view:
  assumes "coherent R c"
  shows "coherent R (snd (Camera_view c))"
proof (cases "fresh (p_view c) (Camera_id c)")
  case True
  then have "snd (Camera_view c) = c" by (simp add: view_fresh)
  with assms show ?thesis by simp
next
  case False
  have t: "coherent R (snd (Camera_target c))" using assms by (rule coherent_target)
  have e: "fst (Camera_view c) = expected_view c" using assms by (rule coherent_view_value)
  from False have s: "snd (Camera_view c) =
      (snd (Camera_target c))\<lparr>p_view := Some \<lparr>mc_id = Some (Camera_id c), mc_array = fst (Camera_view c)\<rparr>\<rparr>"
    by (simp add: view_state)
  have nf: "\<not> fresh (p_viewProjection c) (Camera_id c)"
    using assms False by (auto simp: coherent_def viewProjection_ok_def)
  show ?thesis
    using t e nf unfolding s
    by (simp add: target_state) (simp add: coherent_def projection_ok_def viewProjection_ok_def)
qed

lemma getter_keeps_renderer:
  "renderer (snd (Camera_projection c)) = renderer c"
  "renderer (snd (Camera_target c)) = renderer c"
  "renderer (snd (Camera_view c)) = renderer c"
  by (simp_all add: projection_state target_state view_state)

lemma getter_keeps_ratio:
  "renderer_ratio (snd (Camera_projection c)) = renderer_ratio c"
  "renderer_ratio (snd (Camera_target c)) = renderer_ratio c"
  "renderer_ratio (snd (Camera_view c)) = renderer_ratio c"
  "renderer_ratio (snd (Camera_viewProjection c)) = renderer_ratio c"
  by (simp_all add: renderer_ratio_def getter_keeps_renderer viewProjection_renderer)

lemma view_keeps_projection:
  "p_projection (snd (Camera_view c)) = p_projection c"
  by (simp add: view_state target_state)

lemma coherent_viewProjection:
  assumes "coherent R c" and "renderer_ratio c \<in> R"
  shows "coherent R (snd (Camera_viewProjection c))"
proof (cases "fresh (p_viewProjection c) (Camera_id c)")
  case True
  then have "snd (Camera_viewProjection c) = c" by (simp add: viewProjection_fresh)
  with assms show ?thesis by simp
next
  case False
  let ?c1 = "snd (Camera_projection c)"
  let ?c2 = "snd (Camera_view ?c1)"
  have c1: "coherent R ?c1" using assms by (rule coherent_projection)
  then have c2: "coherent R ?c2" by (rule coherent_view)
  have id2: "Camera_id ?c2 = Camera_id c" by (simp add: getter_keeps_id)
  have p2: "p_projection ?c2 =
      Some \<lparr>mc_id = Some (Camera_id c), mc_array = fst (Camera_projection c)\<rparr>"
    by (simp add: view_keeps_projection projection_stored)
  have v2: "p_view ?c2 = Some \<lparr>mc_id = Some (Camera_id c), mc_array = fst (Camera_view ?c1)\<rparr>"
    by (simp add: view_stored getter_keeps_id)
  have val: "fst (Camera_viewProjection c) =
      Mat4_multiply (fst (Camera_projection c)) (fst (Camera_view ?c1))"
    using False
    by (simp add: Camera_viewProjection_def MatrixComponent_array_def viewProjection_update_def
        case_prod_beta projection_vp_upd view_vp_upd fresh_def MatrixComponent_new_def Let_def
        split: option.splits)
  from False have s: "snd (Camera_viewProjection c) =
      ?c2\<lparr>p_viewProjection :=
          Some \<lparr>mc_id = Some (Camera_id c), mc_array = fst (Camera_viewProjection c)\<rparr>\<rparr>"
    by (simp add: viewProjection_state)
  show ?thesis
    using c2 id2 p2 v2 val unfolding s
    by (simp add: coherent_def projection_ok_def viewProjection_ok_def)
qed

text \<open>What keeps a camera coherent: a greater key, or the same key and the same settings.\<close>

lemma id_bounded_mono: "id_bounded m j \<Longrightarrow> j \<le> k \<Longrightarrow> id_bounded m k"
  by (auto simp: id_bounded_def split: option.splits)

lemma id_bounded_stale: "id_bounded m j \<Longrightarrow> j < k \<Longrightarrow> \<not> fresh m k"
  by (auto simp: id_bounded_def fresh_def split: option.splits)

lemma coherent_mono: "coherent R c \<Longrightarrow> R \<subseteq> R' \<Longrightarrow> coherent R' c"
  by (auto simp: coherent_def projection_ok_def)

lemma coherent_grown:
  assumes "coherent R c" and "Camera_id c < Camera_id c'"
    and "p_projection c' = p_projection c" "p_target c' = p_target c"
    and "p_view c' = p_view c" "p_viewProjection c' = p_viewProjection c"
  shows "coherent R c'"
proof -
  have le: "Camera_id c \<le> Camera_id c'" using assms(2) by simp
  have b: "id_bounded m (Camera_id c) \<Longrightarrow> id_bounded m (Camera_id c')" for m
    by (rule id_bounded_mono [OF _ le])
  have n: "id_bounded m (Camera_id c) \<Longrightarrow> \<not> fresh m (Camera_id c')" for m
    by (rule id_bounded_stale [OF _ assms(2)])
  show ?thesis
    using assms(1)
    by (simp add: coherent_def projection_ok_def viewProjection_ok_def cache_ok_def assms(3-6) b n)
qed

lemma coherent_kept:
  assumes "coherent R c" and "Camera_id c' = Camera_id c"
    and "p_projection c' = p_projection c" "p_target c' = p_target c"
    and "p_view c' = p_view c" "p_viewProjection c' = p_viewProjection c"
    and "p_fieldOfView c' = p_fieldOfView c" "p_aspect c' = p_aspect c"
    and "p_near c' = p_near c" "p_far c' = p_far c"
    and "expected_target c' = expected_target c" "expected_view c' = expected_view c"
  shows "coherent R c'"
  using assms by (simp add: coherent_def projection_ok_def viewProjection_ok_def)

text \<open>Every operation keeps a coherent camera coherent.\<close>

lemma coherent_bumped: "coherent R c \<Longrightarrow> bumped c c' \<Longrightarrow> coherent R c'"
  by (rule coherent_grown) (simp_all add: bumped_def)

lemma coherent_set_far: "coherent R c \<Longrightarrow> coherent R (Camera_set_far v c)"
  using set_far_changed [of v c] coherent_bumped [of R c "Camera_set_far v c"]
  by (cases "v = p_far c") (simp_all add: set_same)

lemma coherent_set_near: "coherent R c \<Longrightarrow> coherent R (Camera_set_near v c)"
  using set_near_changed [of v c] coherent_bumped [of R c "Camera_set_near v c"]
  by (cases "v = p_near c") (simp_all add: set_same)

lemma coherent_set_fieldOfView: "coherent R c \<Longrightarrow> coherent R (Camera_set_fieldOfView v c)"
  using set_fieldOfView_changed [of v c] coherent_bumped [of R c "Camera_set_fieldOfView v c"]
  by (cases "v = p_fieldOfView c") (simp_all add: set_same)

lemma coherent_set_aspect: "coherent R c \<Longrightarrow> coherent R (Camera_set_aspect v c)"
  using set_aspect_changed [of v c] coherent_bumped [of R c "Camera_set_aspect v c"]
  by (cases "v = p_aspect c") (simp_all add: set_same)

lemma coherent_scene_update:
  assumes "coherent R c" and "update_ok upd"
  shows "coherent R (c\<lparr>transform := upd (transform c)\<rparr>)"
proof (cases "worldID (upd (transform c)) = worldID (transform c)")
  case True
  with assms(2) have "worldTransform (upd (transform c)) = worldTransform (transform c)"
    by (simp add: update_ok_def)
  with True assms(1) show ?thesis
    by - (rule coherent_kept [of R c],
      simp_all add: Camera_id_def expected_target_def expected_view_def
        world_position_def world_forward_def world_up_def)
next
  case False
  with assms(2) have "worldID (transform c) < worldID (upd (transform c))"
    by (simp add: update_ok_def le_neq_implies_less)
  with assms(1) show ?thesis
    by - (rule coherent_grown [of R c], simp_all add: Camera_id_def)
qed

lemma coherent_counter: "coherent R c \<Longrightarrow> coherent R (c\<lparr>p_id := p_id c + 1\<rparr>)"
  by (rule coherent_grown [of R c]) (simp_all add: Camera_id_def)

lemma coherent_prerender:
  assumes "coherent R c" and "update_ok upd"
  shows "coherent R (Camera_prerender upd c)"
  using assms coherent_counter [of R c] coherent_scene_update [of R c upd]
    coherent_scene_update [of R "c\<lparr>p_id := p_id c + 1\<rparr>" upd]
  by (simp add: Camera_prerender_def Let_def)

text \<open>
  A resize of the renderer changes neither the key nor a component: the camera stays
  coherent, with the matrix of the renderer's former ratio in its projection component.
\<close>

lemma coherent_resize: "coherent R c \<Longrightarrow> coherent R (c\<lparr>renderer := r'\<rparr>)"
  by (rule coherent_kept [of R c])
    (simp_all add: Camera_id_def expected_target_def expected_view_def
      world_position_def world_forward_def world_up_def)

lemma set_far_ratio: "renderer_ratio (Camera_set_far v c) = renderer_ratio c"
  by (simp add: renderer_ratio_def set_far_renderer)

lemma coherent_screenToWorld:
  assumes "coherent R c" and "renderer_ratio c \<in> R"
  shows "coherent R (snd (snd (Camera_screenToWorld x y d p c)))"
proof -
  have "coherent R (snd (Camera_viewProjection (Camera_set_far d c)))"
    using assms by (simp add: coherent_viewProjection coherent_set_far set_far_ratio)
  then show ?thesis
    by (cases "Mat4_invert (fst (Camera_viewProjection (Camera_set_far d c)))")
      (simp_all add: screenToWorld_singular screenToWorld_regular Let_def coherent_set_far)
qed

lemma worldToScreen_state:
  "snd (Camera_worldToScreen x y z p c) = snd (Camera_projection (snd (Camera_view c)))"
  by (simp add: Camera_worldToScreen_def Let_def case_prod_beta)

lemma coherent_worldToScreen:
  "coherent R c \<Longrightarrow> renderer_ratio c \<in> R \<Longrightarrow>
   coherent R (snd (Camera_worldToScreen x y z p c))"
  by (simp add: worldToScreen_state coherent_projection coherent_view getter_keeps_ratio)

lemma coherent_constructed:
  "coherent R (heap (snd (Camera_constructor b r w)) ! fst (Camera_constructor b r w))"
  by (simp add: Camera_constructor_def Let_def coherent_def Camera_fields_def id_bounded_def
      cache_ok_def projection_ok_def viewProjection_ok_def fresh_def)

lemma coherent_apply_op:
  "coherent R c \<Longrightarrow> update_ok upd \<Longrightarrow> renderer_ratio c \<in> R \<Longrightarrow> coherent R (apply_op upd op c)"
  by (cases op)
    (simp_all add: coherent_set_far coherent_set_near coherent_set_fieldOfView coherent_set_aspect
      coherent_projection coherent_target coherent_view coherent_viewProjection
      coherent_prerender coherent_scene_update coherent_screenToWorld coherent_worldToScreen
      coherent_resize)

text \<open>The ratios that the renderer has had.\<close>

lemma renderer_ratios_last:
  "renderer_ratio (fold (apply_op upd) ops c) \<in> renderer_ratios upd ops c"
  unfolding renderer_ratios_def by (rule image_eqI [of _ _ "length ops"]) simp_all

lemma renderer_ratios_first: "renderer_ratio c \<in> renderer_ratios upd ops c"
  unfolding renderer_ratios_def by (rule image_eqI [of _ _ 0]) simp_all

lemma renderer_ratios_snoc:
  "renderer_ratios upd ops c \<subseteq> renderer_ratios upd (ops @ [op]) c"
proof
  fix x
  assume "x \<in> renderer_ratios upd ops c"
  then obtain k where k: "k \<le> length ops"
    and x: "x = renderer_ratio (fold (apply_op upd) (take k ops) c)"
    by (auto simp: renderer_ratios_def)
  from k x have "x = renderer_ratio (fold (apply_op upd) (take k (ops @ [op])) c)" by simp
  moreover from k have "k \<in> {..length (ops @ [op])}" by simp
  ultimately show "x \<in> renderer_ratios upd (ops @ [op]) c"
    unfolding renderer_ratios_def by (rule image_eqI)
qed

lemma coherent_fold:
  assumes "coherent R c" and "update_ok upd" and "renderer_ratio c \<in> R"
  shows "coherent (R \<union> renderer_ratios upd ops c) (fold (apply_op upd) ops c)"
proof (induction ops rule: rev_induct)
  case Nil
  from assms(1) show ?case by (simp add: coherent_mono)
next
  case (snoc op ops)
  let ?c = "fold (apply_op upd) ops c"
  have "renderer_ratio ?c \<in> R \<union> renderer_ratios upd ops c"
    using renderer_ratios_last [of upd ops c] by simp
  with snoc assms(2)
  have "coherent (R \<union> renderer_ratios upd ops c) (apply_op upd op ?c)"
    by (rule coherent_apply_op)
  moreover have "R \<union> renderer_ratios upd ops c \<subseteq> R \<union> renderer_ratios upd (ops @ [op]) c"
    using renderer_ratios_snoc [of upd ops c op] by blast
  ultimately show ?case by (simp add: coherent_mono)
qed

lemma coherent_reachable:
  assumes "update_ok upd"
  shows "coherent
     (renderer_ratios upd ops (heap (snd (Camera_constructor b r w)) ! fst (Camera_constructor b r w)))
     (fold (apply_op upd) ops
        (heap (snd (Camera_constructor b r w)) ! fst (Camera_constructor b r w)))"
proof -
  let ?init = "heap (snd (Camera_constructor b r w)) ! fst (Camera_constructor b r w)"
  have "coherent ({renderer_ratio ?init} \<union> renderer_ratios upd ops ?init)
          (fold (apply_op upd) ops ?init)"
    using coherent_constructed assms by (rule coherent_fold) simp
  moreover have "{renderer_ratio ?init} \<union> renderer_ratios upd ops ?init = renderer_ratios upd ops ?init"
    using renderer_ratios_first [of ?init upd ops] by blast
  ultimately show ?thesis by simp
qed

text \<open>
  A coherent camera meets what the statements about \<^verbatim>\<open>target\<close>, \<^verbatim>\<open>view\<close> and
  \<^verbatim>\<open>viewProjection\<close> ask of the components.
\<close>

lemma coherent_components:
  assumes "coherent R c"
  shows "cache_ok (p_target c) (Camera_id c) (Vec3_add (world_position c) (world_forward c))"
    and "cache_ok (p_view c) (Camera_id c)
           (Mat4_lookAt (world_position c) (Vec3_add (world_position c) (world_forward c))
              (world_up c))"
    and "cache_ok (p_viewProjection c) (Camera_id c)
           (Mat4_multiply (fst (Camera_projection c)) (fst (Camera_view c)))"
proof -
  show "cache_ok (p_target c) (Camera_id c) (Vec3_add (world_position c) (world_forward c))"
    using assms by (simp add: coherent_def expected_target_def)
  show "cache_ok (p_view c) (Camera_id c)
           (Mat4_lookAt (world_position c) (Vec3_add (world_position c) (world_forward c))
              (world_up c))"
    using assms by (simp add: coherent_def expected_view_def expected_target_def)
  show "cache_ok (p_viewProjection c) (Camera_id c)
           (Mat4_multiply (fst (Camera_projection c)) (fst (Camera_view c)))"
    using assms
    by (simp add: coherent_def viewProjection_ok_def cache_ok_def projection_fresh view_fresh)
qed

section \<open>What the projection getter returns\<close>

text \<open>The settings of a camera that the constructor has just built.\<close>

lemma constructed_fields:
  "p_fieldOfView (heap (snd (Camera_constructor b r w)) ! fst (Camera_constructor b r w)) = 60"
  "p_near (heap (snd (Camera_constructor b r w)) ! fst (Camera_constructor b r w)) = 1 / 10"
  "p_far (heap (snd (Camera_constructor b r w)) ! fst (Camera_constructor b r w)) = 1000"
  "p_aspect (heap (snd (Camera_constructor b r w)) ! fst (Camera_constructor b r w)) = None"
  "renderer (heap (snd (Camera_constructor b r w)) ! fst (Camera_constructor b r w)) = r"
  "p_projection (heap (snd (Camera_constructor b r w)) ! fst (Camera_constructor b r w)) = None"
  "p_id (heap (snd (Camera_constructor b r w)) ! fst (Camera_constructor b r w)) = 0"
  by (simp_all add: Camera_constructor_def Let_def Camera_fields_def)

text \<open>
  A prerender event of a camera whose aspect is not set, or is 0, puts the projection
  component out of date, and the next read computes the matrix of the renderer as it is.
\<close>

lemma prerender_stale:
  assumes "\<not> truthy (p_aspect c)" and "update_ok upd"
    and "id_bounded (p_projection c) (Camera_id c)"
  shows "\<not> fresh (p_projection (Camera_prerender upd c)) (Camera_id (Camera_prerender upd c))"
proof -
  from assms(2) have "worldID (transform c) \<le> worldID (upd (transform c))"
    by (simp add: update_ok_def)
  with assms(1) have "Camera_id c < Camera_id (Camera_prerender upd c)"
    by (simp add: Camera_id_def prerender_counter prerender_transform)
  with assms(3) show ?thesis
    by (simp add: prerender_frame id_bounded_stale)
qed

lemma projection_after_prerender:
  assumes "\<not> truthy (p_aspect c)" and "update_ok upd"
    and "id_bounded (p_projection c) (Camera_id c)"
  shows "fst (Camera_projection (Camera_prerender upd c)) =
     Mat4_perspective (p_fieldOfView c * (pi / 180)) (width (renderer c) / height (renderer c))
       (p_near c) (p_far c)"
proof -
  have "js_or (p_aspect c) d = d" for d
    using assms(1) by (auto simp: js_or_def truthy_def split: option.splits)
  then show ?thesis
    using projection_stale [OF prerender_stale [OF assms]] by (simp add: prerender_frame)
qed

text \<open>A resize of the renderer after a read is not seen by the next read.\<close>

lemma projection_resized:
  "fst (Camera_projection (apply_op upd (Resize w' h') (snd (Camera_projection c)))) =
     fst (Camera_projection c)"
proof -
  let ?c2 = "apply_op upd (Resize w' h') (snd (Camera_projection c))"
  have p: "p_projection ?c2 =
      Some \<lparr>mc_id = Some (Camera_id c), mc_array = fst (Camera_projection c)\<rparr>"
    by (simp add: projection_stored)
  have i: "Camera_id ?c2 = Camera_id c"
    using getter_keeps_id(1) [of c] by (simp add: Camera_id_def)
  have "fresh (p_projection ?c2) (Camera_id ?c2)" unfolding p i by simp
  then have "Camera_projection ?c2 = (cached_array (p_projection ?c2), ?c2)"
    by (rule projection_fresh)
  then show ?thesis unfolding p by simp
qed

text \<open>
  The matrix of \<^verbatim>\<open>Mat4.perspective\<close> is the reference perspective matrix, of the
  cotangent of half the field of view.
\<close>

lemma perspective_reference:
  "Mat4_perspective fovy asp n f =
     [cot (fovy / 2) / asp, 0, 0, 0,
      0, cot (fovy / 2), 0, 0,
      0, 0, (f + n) / (n - f), - 1,
      0, 0, 2 * f * n / (n - f), 0]"
  by (simp add: Mat4_perspective_def Let_def cot_def tan_def)

text \<open>
  C2, as the code has it. Take a camera that the constructor has built and that has then
  been used in any way: through its setters and getters, the two conversions, prerender
  events, updates of its transform by the host, and resizes of the renderer. Its
  \<^verbatim>\<open>projection\<close> getter returns the standard perspective matrix of the field of view
  converted from degrees to radians, of an aspect ratio and of the near and far planes.
  The aspect ratio is the camera's own when that is set and is not 0. Otherwise it is the
  renderer's width divided by its height, as they were at some moment of the camera's
  life, the one of the last recomputation:
  \<^item> they are the current width and height when the getter recomputes, which it does when
    the projection component is missing or out of date;
  \<^item> that is the case at the first read after a prerender event of a camera whose aspect
    is not set or is 0;
  \<^item> a read that follows a read and a resize of the renderer returns what the read before
    the resize returned.

  The perspective matrix is the reference one: in column-major order, with \<open>c\<close> the
  cotangent of half the field of view, its columns are \<open>(c / aspect, 0, 0, 0)\<close>,
  \<open>(0, c, 0, 0)\<close>, \<open>(0, 0, (far + near) / (near - far), - 1)\<close> and
  \<open>(0, 0, 2 * far * near / (near - far), 0)\<close>.
\<close>

theorem Camera_projection_perspective:
  assumes "update_ok upd"
    and "c0 = heap (snd (Camera_constructor b r w)) ! fst (Camera_constructor b r w)"
    and "c = fold (apply_op upd) ops c0"
  shows
  "(\<exists>k\<le>length ops.
      fst (Camera_projection c) =
        Mat4_perspective (p_fieldOfView c * (pi / 180))
          (case p_aspect c of
             None \<Rightarrow> width (renderer (fold (apply_op upd) (take k ops) c0)) /
                    height (renderer (fold (apply_op upd) (take k ops) c0))
           | Some a \<Rightarrow>
               if a \<noteq> 0 then a
               else width (renderer (fold (apply_op upd) (take k ops) c0)) /
                    height (renderer (fold (apply_op upd) (take k ops) c0)))
          (p_near c) (p_far c)) \<and>
   (p_aspect c = Some a \<and> a \<noteq> 0 \<longrightarrow>
      fst (Camera_projection c) =
        Mat4_perspective (p_fieldOfView c * (pi / 180)) a (p_near c) (p_far c)) \<and>
   (\<not> fresh (p_projection c) (Camera_id c) \<longrightarrow>
      fst (Camera_projection c) =
        Mat4_perspective (p_fieldOfView c * (pi / 180))
          (case p_aspect c of
             None \<Rightarrow> width (renderer c) / height (renderer c)
           | Some a \<Rightarrow> if a \<noteq> 0 then a else width (renderer c) / height (renderer c))
          (p_near c) (p_far c)) \<and>
   (p_aspect c = None \<or> p_aspect c = Some 0 \<longrightarrow>
      fst (Camera_projection (Camera_prerender upd c)) =
        Mat4_perspective (p_fieldOfView c * (pi / 180))
          (width (renderer c) / height (renderer c)) (p_near c) (p_far c)) \<and>
   fst (Camera_projection (apply_op upd (Resize w' h') (snd (Camera_projection c)))) =
     fst (Camera_projection c) \<and>
   Mat4_perspective fovy asp n f =
     [cot (fovy / 2) / asp, 0, 0, 0,
      0, cot (fovy / 2), 0, 0,
      0, 0, (f + n) / (n - f), - 1,
      0, 0, 2 * f * n / (n - f), 0]"
proof -
  have coh: "coherent (renderer_ratios upd ops c0) c"
    unfolding assms(2,3) using assms(1) by (rule coherent_reachable)
  have "renderer_ratio c \<in> renderer_ratios upd ops c0"
    unfolding assms(3) by (rule renderer_ratios_last)
  with coh obtain ratio where ratio: "ratio \<in> renderer_ratios upd ops c0"
    and val: "fst (Camera_projection c) =
      Mat4_perspective (p_fieldOfView c * (pi / 180)) (js_or (p_aspect c) ratio)
        (p_near c) (p_far c)"
    using projection_value [of "renderer_ratios upd ops c0" c] by (auto simp: coherent_def)
  from ratio obtain k where k: "k \<le> length ops"
    and rk: "ratio = width (renderer (fold (apply_op upd) (take k ops) c0)) /
                    height (renderer (fold (apply_op upd) (take k ops) c0))"
    by (auto simp: renderer_ratios_def renderer_ratio_def)
  have 1: "\<exists>k\<le>length ops.
      fst (Camera_projection c) =
        Mat4_perspective (p_fieldOfView c * (pi / 180))
          (case p_aspect c of
             None \<Rightarrow> width (renderer (fold (apply_op upd) (take k ops) c0)) /
                    height (renderer (fold (apply_op upd) (take k ops) c0))
           | Some a \<Rightarrow>
               if a \<noteq> 0 then a
               else width (renderer (fold (apply_op upd) (take k ops) c0)) /
                    height (renderer (fold (apply_op upd) (take k ops) c0)))
          (p_near c) (p_far c)"
    using k val unfolding rk js_or_def by blast
  have 2: "p_aspect c = Some a \<and> a \<noteq> 0 \<longrightarrow>
      fst (Camera_projection c) =
        Mat4_perspective (p_fieldOfView c * (pi / 180)) a (p_near c) (p_far c)"
    using val by (simp add: js_or_def)
  have 3: "\<not> fresh (p_projection c) (Camera_id c) \<longrightarrow>
      fst (Camera_projection c) =
        Mat4_perspective (p_fieldOfView c * (pi / 180))
          (case p_aspect c of
             None \<Rightarrow> width (renderer c) / height (renderer c)
           | Some a \<Rightarrow> if a \<noteq> 0 then a else width (renderer c) / height (renderer c))
          (p_near c) (p_far c)"
    using projection_stale [of c] by (simp add: js_or_def)
  have b: "id_bounded (p_projection c) (Camera_id c)"
    using coh by (simp add: coherent_def)
  have 4: "p_aspect c = None \<or> p_aspect c = Some 0 \<longrightarrow>
      fst (Camera_projection (Camera_prerender upd c)) =
        Mat4_perspective (p_fieldOfView c * (pi / 180))
          (width (renderer c) / height (renderer c)) (p_near c) (p_far c)"
  proof
    assume "p_aspect c = None \<or> p_aspect c = Some 0"
    then have "\<not> truthy (p_aspect c)" by (auto simp: truthy_def)
    then show "fst (Camera_projection (Camera_prerender upd c)) =
        Mat4_perspective (p_fieldOfView c * (pi / 180))
          (width (renderer c) / height (renderer c)) (p_near c) (p_far c)"
      using assms(1) b by (rule projection_after_prerender)
  qed
  note 5 = projection_resized [of upd w' h' c]
  note 6 = perspective_reference [of fovy asp n f]
  show ?thesis by (intro conjI 1 2 3 4 5 6)
qed


text \<open>
  The camera that the constructor builds on the example renderer, of 800 by 600. With the
  aspect set to 2, the projection read once and the renderer resized to 400 by 400, the
  getter returns the matrix of the aspect 2. Without an aspect, the projection read once
  and the renderer resized to 400 by 400, the getter still returns the matrix of the
  ratio 800 / 600; after the next prerender event it returns the matrix of the ratio
  400 / 400.
\<close>

theorem Camera_projection_perspective_witness:
  "update_ok example_update \<and>
   fst (Camera_projection
     (fold (apply_op example_update) [Set_aspect (Some 2), Get_projection, Resize 400 400]
        (heap (snd (Camera_constructor example_base example_renderer World_empty)) !
           fst (Camera_constructor example_base example_renderer World_empty)))) =
     Mat4_perspective (60 * (pi / 180)) 2 (1 / 10) 1000 \<and>
   fst (Camera_projection
     (fold (apply_op example_update) [Get_projection, Resize 400 400]
        (heap (snd (Camera_constructor example_base example_renderer World_empty)) !
           fst (Camera_constructor example_base example_renderer World_empty)))) =
     Mat4_perspective (60 * (pi / 180)) (800 / 600) (1 / 10) 1000 \<and>
   fst (Camera_projection (Camera_prerender example_update
     (fold (apply_op example_update) [Get_projection, Resize 400 400]
        (heap (snd (Camera_constructor example_base example_renderer World_empty)) !
           fst (Camera_constructor example_base example_renderer World_empty))))) =
     Mat4_perspective (60 * (pi / 180)) (400 / 400) (1 / 10) 1000"
proof -
  let ?init = "heap (snd (Camera_constructor example_base example_renderer World_empty)) !
               fst (Camera_constructor example_base example_renderer World_empty)"
  let ?a = "fold (apply_op example_update) [Set_aspect (Some 2), Get_projection, Resize 400 400] ?init"
  let ?b = "fold (apply_op example_update) [Get_projection, Resize 400 400] ?init"
  have u: "update_ok example_update"
    by (simp add: update_ok_def example_update_def)
  note A = Camera_projection_perspective
      [where upd = example_update and b = example_base and r = example_renderer
         and w = World_empty and ops = "[Set_aspect (Some 2), Get_projection, Resize 400 400]"
         and a = 2 and w' = 0 and h' = 0 and fovy = 0 and asp = 0 and n = 0 and f = 0,
       OF u refl refl]
  note B = Camera_projection_perspective
      [where upd = example_update and b = example_base and r = example_renderer
         and w = World_empty and ops = "[Get_projection, Resize 400 400]"
         and a = 0 and w' = 0 and h' = 0 and fovy = 0 and asp = 0 and n = 0 and f = 0,
       OF u refl refl]
  note Z = Camera_projection_perspective
      [where upd = example_update and b = example_base and r = example_renderer
         and w = World_empty and ops = "[]"
         and a = 0 and w' = 400 and h' = 400 and fovy = 0 and asp = 0 and n = 0 and f = 0,
       OF u refl refl]
  have fa: "p_fieldOfView ?a = 60" "p_aspect ?a = Some 2" "p_near ?a = 1 / 10" "p_far ?a = 1000"
    by (simp_all add: constructed_fields Camera_set_aspect_def projection_state)
  have fb: "p_fieldOfView ?b = 60" "p_aspect ?b = None" "p_near ?b = 1 / 10" "p_far ?b = 1000"
    "width (renderer ?b) = 400" "height (renderer ?b) = 400"
    by (simp_all add: constructed_fields projection_state)
  have f0: "\<not> fresh (p_projection ?init) (Camera_id ?init)"
    by (simp add: constructed_fields fresh_def)
  have 1: "fst (Camera_projection ?a) = Mat4_perspective (60 * (pi / 180)) 2 (1 / 10) 1000"
    using A [THEN conjunct2, THEN conjunct1] unfolding fa by simp
  have "fst (Camera_projection ?init) = Mat4_perspective (60 * (pi / 180)) (800 / 600) (1 / 10) 1000"
    using Z [THEN conjunct2, THEN conjunct2, THEN conjunct1] f0
    by (simp add: constructed_fields example_renderer_def)
  moreover have "fst (Camera_projection ?b) = fst (Camera_projection ?init)"
    using Z [THEN conjunct2, THEN conjunct2, THEN conjunct2, THEN conjunct2, THEN conjunct1]
    by simp
  ultimately have 2: "fst (Camera_projection ?b) =
      Mat4_perspective (60 * (pi / 180)) (800 / 600) (1 / 10) 1000"
    by simp
  have 3: "fst (Camera_projection (Camera_prerender example_update ?b)) =
      Mat4_perspective (60 * (pi / 180)) (400 / 400) (1 / 10) 1000"
    using B [THEN conjunct2, THEN conjunct2, THEN conjunct2, THEN conjunct1]
    unfolding fb by simp
  show ?thesis by (intro conjI u 1 2 3)
qed

text \<open>
  C2 as the claim words it fails in two ways.

  For a camera whose aspect is set to 0, "the camera's own aspect when set" is not what
  the getter takes: \<^verbatim>\<open>this._aspect || ...\<close> takes the renderer's ratio, 800 / 600, and the
  matrix returned is not the perspective matrix of the aspect 0. (The two differ in their
  first element: \<open>3 * sqrt 3 / 4\<close> in the matrix returned; in the matrix of the aspect 0
  it is a quotient by 0, an infinity in the program and 0 in HOL.)

  For a camera without an aspect, "renderer width divided by renderer height" is not
  that of the renderer as it is: the camera built by the constructor on the renderer of
  800 by 600, read once, with the renderer then resized to 400 by 400, has the key it had,
  and the getter returns the matrix of the ratio 800 / 600, not that of the ratio
  400 / 400 (whose first element is \<open>sqrt 3\<close>).
\<close>

theorem Camera_projection_aspect_zero_or_resized:
  "p_aspect (Camera_set_aspect (Some 0) example_camera) = Some 0 \<and>
   fst (Camera_projection (Camera_set_aspect (Some 0) example_camera)) =
     Mat4_perspective (60 * (pi / 180)) (800 / 600) (1 / 10) 1000 \<and>
   fst (Camera_projection (Camera_set_aspect (Some 0) example_camera)) \<noteq>
     Mat4_perspective (60 * (pi / 180)) 0 (1 / 10) 1000 \<and>
   p_aspect
     (fold (apply_op example_update) [Get_projection, Resize 400 400]
        (heap (snd (Camera_constructor example_base example_renderer World_empty)) !
           fst (Camera_constructor example_base example_renderer World_empty))) = None \<and>
   width (renderer
     (fold (apply_op example_update) [Get_projection, Resize 400 400]
        (heap (snd (Camera_constructor example_base example_renderer World_empty)) !
           fst (Camera_constructor example_base example_renderer World_empty)))) = 400 \<and>
   height (renderer
     (fold (apply_op example_update) [Get_projection, Resize 400 400]
        (heap (snd (Camera_constructor example_base example_renderer World_empty)) !
           fst (Camera_constructor example_base example_renderer World_empty)))) = 400 \<and>
   fst (Camera_projection
     (fold (apply_op example_update) [Get_projection, Resize 400 400]
        (heap (snd (Camera_constructor example_base example_renderer World_empty)) !
           fst (Camera_constructor example_base example_renderer World_empty)))) =
     Mat4_perspective (60 * (pi / 180)) (800 / 600) (1 / 10) 1000 \<and>
   fst (Camera_projection
     (fold (apply_op example_update) [Get_projection, Resize 400 400]
        (heap (snd (Camera_constructor example_base example_renderer World_empty)) !
           fst (Camera_constructor example_base example_renderer World_empty)))) \<noteq>
     Mat4_perspective (60 * (pi / 180)) (400 / 400) (1 / 10) 1000"
proof -
  let ?c = "Camera_set_aspect (Some 0) example_camera"
  let ?init = "heap (snd (Camera_constructor example_base example_renderer World_empty)) !
               fst (Camera_constructor example_base example_renderer World_empty)"
  let ?b = "fold (apply_op example_update) [Get_projection, Resize 400 400] ?init"
  have f: "p_projection ?c = None" "p_aspect ?c = Some 0" "p_fieldOfView ?c = 60"
    "p_near ?c = 1 / 10" "p_far ?c = 1000" "renderer ?c = example_renderer"
    by (simp_all add: Camera_set_aspect_def example_camera_simps)
  have val: "fst (Camera_projection ?c) =
               Mat4_perspective (60 * (pi / 180)) (800 / 600) (1 / 10) 1000"
    using projection_stale [of ?c] by (simp add: fresh_def f js_or_def example_renderer_def)
  have e: "Mat4_perspective (60 * (pi / 180)) (800 / 600) (1 / 10) 1000 ! 0 = 3 * sqrt 3 / 4"
    by (simp add: Mat4_perspective_def Let_def tan_30)
  have "Mat4_perspective (60 * (pi / 180)) 0 (1 / 10) 1000 ! 0 = 0"
    by (simp add: Mat4_perspective_def Let_def)
  with e have ne: "Mat4_perspective (60 * (pi / 180)) (800 / 600) (1 / 10) 1000 \<noteq>
     Mat4_perspective (60 * (pi / 180)) 0 (1 / 10) 1000"
    by (metis mult_eq_0_iff divide_eq_0_iff real_sqrt_eq_zero_cancel_iff zero_neq_numeral)
  have "Mat4_perspective (60 * (pi / 180)) (400 / 400) (1 / 10) 1000 ! 0 = sqrt 3"
    by (simp add: Mat4_perspective_def Let_def tan_30 real_div_sqrt)
  moreover have "3 * sqrt 3 / 4 \<noteq> sqrt 3" by simp
  ultimately have ne1: "Mat4_perspective (60 * (pi / 180)) (800 / 600) (1 / 10) 1000 \<noteq>
     Mat4_perspective (60 * (pi / 180)) (400 / 400) (1 / 10) 1000"
    using e by metis
  have fb: "p_aspect ?b = None" "width (renderer ?b) = 400" "height (renderer ?b) = 400"
    by (simp_all add: constructed_fields projection_state)
  have f0: "\<not> fresh (p_projection ?init) (Camera_id ?init)"
    by (simp add: constructed_fields fresh_def)
  have "fst (Camera_projection ?init) = Mat4_perspective (60 * (pi / 180)) (800 / 600) (1 / 10) 1000"
    using projection_stale [OF f0]
    by (simp add: constructed_fields example_renderer_def js_or_def)
  moreover have "fst (Camera_projection ?b) = fst (Camera_projection ?init)"
    using projection_resized [of example_update 400 400 ?init] by simp
  ultimately have vb: "fst (Camera_projection ?b) =
      Mat4_perspective (60 * (pi / 180)) (800 / 600) (1 / 10) 1000"
    by simp
  show ?thesis
    unfolding vb val using f(2) fb ne ne1 by simp
qed

text \<open>
  The caches of a camera are coherent from its construction on, whatever ratios the
  renderer has had: the constructor leaves a coherent camera, every operation, a resize of
  the renderer among them, keeps a coherent camera coherent as long as the host's update
  of the transform is as the camera expects it, and the getters of a coherent camera
  return the target and the view of the current world matrix, the product of the
  projection and the view that the getters return, and the perspective matrix of the
  current settings and of a ratio that the renderer has had.
\<close>

theorem Camera_coherence_invariant:
  "coherent R (heap (snd (Camera_constructor b r w)) ! fst (Camera_constructor b r w)) \<and>
   (coherent R c \<and> update_ok upd \<and> renderer_ratio c \<in> R \<longrightarrow>
      coherent (R \<union> renderer_ratios upd ops c) (fold (apply_op upd) ops c)) \<and>
   (coherent R c \<longrightarrow>
      fst (Camera_target c) = expected_target c \<and>
      fst (Camera_view c) = expected_view c \<and>
      fst (Camera_viewProjection c) =
        Mat4_multiply (fst (Camera_projection c)) (fst (Camera_view c)) \<and>
      (renderer_ratio c \<in> R \<longrightarrow>
         (\<exists>ratio\<in>R. fst (Camera_projection c) =
            Mat4_perspective (p_fieldOfView c * (pi / 180)) (js_or (p_aspect c) ratio)
              (p_near c) (p_far c))))"
proof -
  have "coherent R c \<Longrightarrow> projection_ok R c" by (simp add: coherent_def)
  then show ?thesis
    using coherent_constructed [of R b r w] coherent_fold [of R c upd ops]
      coherent_target_value [of R c] coherent_view_value [of R c]
      coherent_viewProjection_value [of R c] projection_value [of R c]
    by blast
qed

text \<open>
  The camera that the constructor builds on the example renderer, read, its renderer
  resized, set, sent a prerender event and read again: it is coherent, and its
  view-projection is the product of its projection and its view.
\<close>

theorem Camera_coherence_invariant_witness:
  "coherent {800 / 600}
     (heap (snd (Camera_constructor example_base example_renderer World_empty)) ! 0) \<and>
   update_ok example_update \<and>
   renderer_ratio (heap (snd (Camera_constructor example_base example_renderer World_empty)) ! 0)
     \<in> {800 / 600} \<and>
   coherent
     ({800 / 600} \<union>
      renderer_ratios example_update
        [Get_viewProjection, Resize 400 400, Set_far 500, Prerender, Get_projection]
        (heap (snd (Camera_constructor example_base example_renderer World_empty)) ! 0))
     (fold (apply_op example_update)
        [Get_viewProjection, Resize 400 400, Set_far 500, Prerender, Get_projection]
        (heap (snd (Camera_constructor example_base example_renderer World_empty)) ! 0)) \<and>
   fst (Camera_viewProjection
     (fold (apply_op example_update)
        [Get_viewProjection, Resize 400 400, Set_far 500, Prerender, Get_projection]
        (heap (snd (Camera_constructor example_base example_renderer World_empty)) ! 0))) =
     Mat4_multiply
       (fst (Camera_projection
         (fold (apply_op example_update)
            [Get_viewProjection, Resize 400 400, Set_far 500, Prerender, Get_projection]
            (heap (snd (Camera_constructor example_base example_renderer World_empty)) ! 0))))
       (fst (Camera_view
         (fold (apply_op example_update)
            [Get_viewProjection, Resize 400 400, Set_far 500, Prerender, Get_projection]
            (heap (snd (Camera_constructor example_base example_renderer World_empty)) ! 0))))"
proof -
  let ?init = "heap (snd (Camera_constructor example_base example_renderer World_empty)) ! 0"
  let ?ops = "[Get_viewProjection, Resize 400 400, Set_far 500, Prerender, Get_projection]"
  let ?R = "{800 / 600} \<union> renderer_ratios example_update ?ops ?init"
  let ?c = "fold (apply_op example_update) ?ops ?init"
  have r: "fst (Camera_constructor example_base example_renderer World_empty) = 0"
    by (simp add: Camera_constructor_def World_empty_def Let_def)
  have c0: "coherent {800 / 600} ?init"
    using Camera_coherence_invariant [of "{800 / 600}" example_base example_renderer World_empty]
    by (simp add: r)
  have u: "update_ok example_update"
    by (simp add: update_ok_def example_update_def)
  have "renderer ?init = example_renderer"
    using constructed_fields(5) [of example_base example_renderer World_empty] by (simp add: r)
  then have r0: "renderer_ratio ?init \<in> {800 / 600}"
    by (simp add: renderer_ratio_def example_renderer_def)
  have c: "coherent ?R ?c"
    using Camera_coherence_invariant [of "{800 / 600}" _ _ _ ?init example_update ?ops] c0 u r0
    by blast
  have "fst (Camera_viewProjection ?c) =
      Mat4_multiply (fst (Camera_projection ?c)) (fst (Camera_view ?c))"
    using Camera_coherence_invariant [of ?R _ _ _ ?c] c by blast
  with c0 u r0 c show ?thesis by blast
qed

section \<open>Rendering a mesh, continued\<close>

text \<open>
  What \<^verbatim>\<open>MeshShader.render\<close> does apart from the draw mode \<^verbatim>\<open>POINTS\<close>. It adds the
  shader's attributes exactly when the geometry does not have them, then binds the
  shader, sets the given state or else the shader's, binds the geometry and draws. The
  geometry has the shader's attributes afterwards, so a second \<^verbatim>\<open>render\<close> adds none.
  With a draw mode other than \<^verbatim>\<open>POINTS\<close> the draw call uses it, with none it uses the
  shader's. The attributes are added in the order indices, positions, first UV set,
  normals, tangents, each only when the geometry has it.
\<close>

theorem MeshShader_render_adds_attributes_once:
  "snd (MeshShader_render sh mesh st dm) =
     (if hasShaderAttributes sh (geometry mesh) then []
      else MeshShader_addGeometryAttributes sh (geometry mesh)) @
     [shader_bind (MeshShader_name sh) False,
      state_set (case st of None \<Rightarrow> state sh | Some s \<Rightarrow> s),
      geometry_bind (MeshShader_name sh), geometry_draw (drawMode_or dm (drawMode sh))] \<and>
   hasShaderAttributes sh (geometry (fst (MeshShader_render sh mesh st dm))) \<and>
   snd (MeshShader_render sh (fst (MeshShader_render sh mesh st dm)) st' dm') =
     [shader_bind (MeshShader_name sh) False,
      state_set (case st' of None \<Rightarrow> state sh | Some s \<Rightarrow> s),
      geometry_bind (MeshShader_name sh), geometry_draw (drawMode_or dm' (drawMode sh))] \<and>
   (DRAW_MODES_value m \<noteq> 0 \<longrightarrow> drawMode_or (Some m) (drawMode sh) = m) \<and>
   drawMode_or None (drawMode sh) = drawMode sh \<and>
   MeshShader_addGeometryAttributes sh g =
     (case indices g of None \<Rightarrow> [] | Some i \<Rightarrow> [addIndex (map ToUint32 (buffer i))]) @
     (case positions g of None \<Rightarrow> []
      | Some p \<Rightarrow> [addAttribute ''a_Position'' (buffer p) 3 False (componentType p) (stride p)]) @
     (case uvs g of None \<Rightarrow> [] | Some [] \<Rightarrow> []
      | Some (uv # rest) \<Rightarrow>
          [addAttribute ''a_UV1'' (buffer uv) 2 False (componentType uv) (stride uv)]) @
     (case normals g of None \<Rightarrow> []
      | Some n \<Rightarrow> [addAttribute ''a_Normal'' (buffer n) 3 False (componentType n) (stride n)]) @
     (case tangents g of None \<Rightarrow> []
      | Some t \<Rightarrow> [addAttribute ''a_Tangent'' (buffer t) 4 False (componentType t) (stride t)])"
  by (simp add: render_calls render_again render_compatible drawMode_or_def state_or_def
      MeshShader_addGeometryAttributes_def attribute_call_def new_Uint32Array_def
      split: option.splits list.splits)

text \<open>
  A triangle with positions and one UV set, rendered with \<^verbatim>\<open>LINES\<close>, then rendered again.
\<close>

theorem MeshShader_render_adds_attributes_once_witness:
  "DRAW_MODES_value LINES \<noteq> 0 \<and>
   snd (MeshShader_render MeshShader_new
     \<lparr>geometry = \<lparr>indices = Some \<lparr>buffer = [0, 1, 2], componentType = 5123, stride = 0\<rparr>,
        positions = Some \<lparr>buffer = [0, 0, 0, 1, 0, 0, 0, 1, 0], componentType = 5126, stride = 0\<rparr>,
        uvs = Some [\<lparr>buffer = [0, 0, 1, 0, 0, 1], componentType = 5126, stride = 0\<rparr>],
        normals = None, tangents = None, shaders = []\<rparr>\<rparr> None (Some LINES)) =
     [addIndex [0, 1, 2],
      addAttribute ''a_Position'' [0, 0, 0, 1, 0, 0, 0, 1, 0] 3 False 5126 0,
      addAttribute ''a_UV1'' [0, 0, 1, 0, 0, 1] 2 False 5126 0,
      shader_bind ''mesh-shader'' False,
      state_set \<lparr>culling = True, clockwiseFrontFace = False, depthTest = True\<rparr>,
      geometry_bind ''mesh-shader'', geometry_draw LINES]"
proof -
  let ?g = "\<lparr>indices = Some \<lparr>buffer = [0, 1, 2], componentType = 5123, stride = 0\<rparr>,
        positions = Some \<lparr>buffer = [0, 0, 0, 1, 0, 0, 0, 1, 0], componentType = 5126, stride = 0\<rparr>,
        uvs = Some [\<lparr>buffer = [0, 0, 1, 0, 0, 1], componentType = 5126, stride = 0\<rparr>],
        normals = None, tangents = None, shaders = []\<rparr>"
  have u: "ToUint32 0 = 0" "ToUint32 1 = 1" "ToUint32 2 = 2"
    by (simp_all add: ToUint32_def)
  have n: "DRAW_MODES_value LINES \<noteq> 0" by simp
  show ?thesis
    using MeshShader_render_adds_attributes_once
      [of MeshShader_new "\<lparr>geometry = ?g\<rparr>" None "Some LINES" None None LINES ?g] n
    by (simp add: hasShaderAttributes_def MeshShader_new_def MeshShader_name_def u)
qed

end
